theory Spec2Isabelle
  imports Complex_Main
begin

section \<open>Python values\<close>

text \<open>
  A Python \<^verbatim>\<open>str\<close> is a sequence of Unicode code points, so it is modelled as a list
  of naturals; \<open>str\<close> turns an ASCII literal into such a sequence and \<open>ord\<close> gives the
  code point of one character.
\<close>

type_synonym pystr = "nat list"

abbreviation ord :: "char \<Rightarrow> nat" where
  "ord \<equiv> of_char"

definition str :: "string \<Rightarrow> pystr" where
  "str cs = map ord cs"

text \<open>
  The objects \<^verbatim>\<open>json.loads\<close> builds: \<^verbatim>\<open>None\<close>, booleans, integers, floats,
  strings, lists and dictionaries. A float is kept as the numeral text that the decoder
  hands to \<^verbatim>\<open>float()\<close> (also for \<^verbatim>\<open>NaN\<close>, \<^verbatim>\<open>Infinity\<close> and \<^verbatim>\<open>-Infinity\<close>);
  a dictionary is an association list in insertion order with unique keys.
\<close>

datatype pyvalue =
    PNone
  | PBool bool
  | PInt int
  | PFloat pystr
  | PStr pystr
  | PList "pyvalue list"
  | PDict "(pystr \<times> pyvalue) list"

text \<open>The exceptions that the modelled code can raise.\<close>

datatype exn =
    APIKeyError pystr
  | ValueError pystr
  | AttributeError
  | TypeError
  | ModelCallError pystr
  | MultipleObjectsReturned
  | IntegrityError
  | ZeroDivisionError

text \<open>\<^verbatim>\<open>d[k] = v\<close>: an existing key keeps its position, a new key goes last.\<close>

fun dict_set :: "(pystr \<times> pyvalue) list \<Rightarrow> pystr \<Rightarrow> pyvalue \<Rightarrow> (pystr \<times> pyvalue) list" where
  "dict_set [] k v = [(k, v)]"
| "dict_set ((k', v') # kvs) k v =
     (if k' = k then (k, v) # kvs else (k', v') # dict_set kvs k v)"

text \<open>\<^verbatim>\<open>dict(pairs)\<close>: later pairs overwrite earlier ones with the same key.\<close>

definition dict_of_pairs :: "(pystr \<times> pyvalue) list \<Rightarrow> (pystr \<times> pyvalue) list" where
  "dict_of_pairs pairs = foldl (\<lambda>d (k, v). dict_set d k v) [] pairs"

text \<open>
  \<^verbatim>\<open>x.get(key, default)\<close>: only a dictionary has the method; on every other object the
  attribute lookup raises \<^verbatim>\<open>AttributeError\<close>.
\<close>

fun py_get :: "pyvalue \<Rightarrow> pystr \<Rightarrow> pyvalue \<Rightarrow> exn + pyvalue" where
  "py_get (PDict kvs) key dflt =
     (case map_of kvs key of None \<Rightarrow> Inr dflt | Some v \<Rightarrow> Inr v)"
| "py_get _ key dflt = Inl AttributeError"

text \<open>
  Iterating an object, as \<^verbatim>\<open>enumerate\<close> does: a list gives its elements, a dictionary
  its keys, a string its characters; anything else raises \<^verbatim>\<open>TypeError\<close>.
\<close>

fun py_iter :: "pyvalue \<Rightarrow> exn + pyvalue list" where
  "py_iter (PList xs) = Inr xs"
| "py_iter (PDict kvs) = Inr (map (\<lambda>(k, v). PStr k) kvs)"
| "py_iter (PStr s) = Inr (map (\<lambda>c. PStr [c]) s)"
| "py_iter _ = Inl TypeError"

section \<open>The JSON decoder\<close>

text \<open>
  \<^verbatim>\<open>json.loads\<close> with its default settings, following the structure of the standard
  library's decoder (\<^verbatim>\<open>scanstring\<close>, \<^verbatim>\<open>JSONObject\<close>, \<^verbatim>\<open>JSONArray\<close>, \<^verbatim>\<open>scan_once\<close>,
  \<^verbatim>\<open>decode\<close>). Every \<^verbatim>\<open>JSONDecodeError\<close> is the value \<open>None\<close>; the interpreter's
  resource limits (recursion depth, digits of an integer) are outside the model.
\<close>

definition is_ws :: "nat \<Rightarrow> bool" where
  "is_ws c \<longleftrightarrow> c = ord CHR '' '' \<or> c = 9 \<or> c = 10 \<or> c = 13"

definition skip_ws :: "pystr \<Rightarrow> pystr" where
  "skip_ws s = dropWhile is_ws s"

definition is_digit :: "nat \<Rightarrow> bool" where
  "is_digit c \<longleftrightarrow> ord CHR ''0'' \<le> c \<and> c \<le> ord CHR ''9''"

definition hex_digit :: "nat \<Rightarrow> nat option" where
  "hex_digit c =
     (if ord CHR ''0'' \<le> c \<and> c \<le> ord CHR ''9'' then Some (c - ord CHR ''0'')
      else if ord CHR ''a'' \<le> c \<and> c \<le> ord CHR ''f'' then Some (c - ord CHR ''a'' + 10)
      else if ord CHR ''A'' \<le> c \<and> c \<le> ord CHR ''F'' then Some (c - ord CHR ''A'' + 10)
      else None)"

text \<open>
  \<^verbatim>\<open>_decode_uXXXX\<close>: the value of the four hexadecimal digits at the start of the text.
\<close>

definition decode_uXXXX :: "pystr \<Rightarrow> nat option" where
  "decode_uXXXX s =
     (if length s < 4 then None
      else case (hex_digit (s ! 0), hex_digit (s ! 1), hex_digit (s ! 2), hex_digit (s ! 3)) of
             (Some x, Some y, Some z, Some w) \<Rightarrow> Some (((x * 16 + y) * 16 + z) * 16 + w)
           | _ \<Rightarrow> None)"

definition backslash :: "nat \<Rightarrow> nat option" where
  "backslash e =
     (if e = ord CHR 0x22 then Some (ord CHR 0x22)
      else if e = ord CHR 0x5C then Some (ord CHR 0x5C)
      else if e = ord CHR ''/'' then Some (ord CHR ''/'')
      else if e = ord CHR ''b'' then Some 8
      else if e = ord CHR ''f'' then Some 12
      else if e = ord CHR ''n'' then Some 10
      else if e = ord CHR ''r'' then Some 13
      else if e = ord CHR ''t'' then Some 9
      else None)"

text \<open>
  One step of \<^verbatim>\<open>scanstring\<close>: the next character of the string's content, which is
  either a plain character or a backslash escape, and the text after it. Control
  characters are refused (strict mode); a high surrogate escape that is followed by a
  low surrogate escape is joined with it into one code point.
\<close>

definition scan_char :: "nat \<Rightarrow> pystr \<Rightarrow> (nat \<times> pystr) option" where
  "scan_char c cs =
     (if c = ord CHR 0x5C then
        (case cs of
           [] \<Rightarrow> None
         | e # r \<Rightarrow>
             if e = ord CHR ''u'' then
               (case decode_uXXXX r of
                  None \<Rightarrow> None
                | Some uni \<Rightarrow>
                    if 0xD800 \<le> uni \<and> uni \<le> 0xDBFF \<and> take 2 (drop 4 r) = [ord CHR 0x5C, ord CHR ''u''] then
                      (case decode_uXXXX (drop 6 r) of
                         None \<Rightarrow> None
                       | Some uni2 \<Rightarrow>
                           if 0xDC00 \<le> uni2 \<and> uni2 \<le> 0xDFFF
                           then Some (0x10000 + (uni - 0xD800) * 1024 + (uni2 - 0xDC00), drop 10 r)
                           else Some (uni, drop 4 r))
                    else Some (uni, drop 4 r))
             else
               (case backslash e of
                  None \<Rightarrow> None
                | Some ch \<Rightarrow> Some (ch, r)))
      else if c < 0x20 then None
      else Some (c, cs))"

text \<open>
  \<^verbatim>\<open>scanstring\<close>, entered after the opening quote, with the characters read so far in
  reverse; it ends at the closing quote.
\<close>

function scanstring :: "pystr \<Rightarrow> pystr \<Rightarrow> (pystr \<times> pystr) option" where
  "scanstring [] acc = None"
| "scanstring (c # cs) acc =
     (if c = ord CHR 0x22 then Some (rev acc, cs)
      else case scan_char c cs of
             None \<Rightarrow> None
           | Some (ch, r) \<Rightarrow> scanstring r (ch # acc))"
  by pat_completeness auto
termination
  by (relation "measure (\<lambda>(s, acc). length s)")
     (auto simp: scan_char_def split: if_splits list.splits option.splits)

text \<open>
  The number pattern \<^verbatim>\<open>(-?(?:0|[1-9][0-9]*))(\.[0-9]+)?([eE][-+]?[0-9]+)?\<close>, matched at
  the start of the text: an integer when neither fraction nor exponent is there, a
  float otherwise.
\<close>

definition int_of_digits :: "pystr \<Rightarrow> int" where
  "int_of_digits ds = foldl (\<lambda>n d. 10 * n + int (d - ord CHR ''0'')) 0 ds"

definition match_integer :: "pystr \<Rightarrow> (pystr \<times> pystr) option" where
  "match_integer s =
     (let (sign, s1) = (case s of c # r \<Rightarrow> if c = ord CHR ''-'' then ([c], r) else ([], s) | [] \<Rightarrow> ([], s))
      in case s1 of
           [] \<Rightarrow> None
         | d # r \<Rightarrow>
             if d = ord CHR ''0'' then Some (sign @ [d], r)
             else if is_digit d then Some (sign @ takeWhile is_digit s1, dropWhile is_digit s1)
             else None)"

definition match_frac :: "pystr \<Rightarrow> pystr \<times> pystr" where
  "match_frac s =
     (case s of
        c # d # r \<Rightarrow>
          if c = ord CHR ''.'' \<and> is_digit d
          then (c # takeWhile is_digit (d # r), dropWhile is_digit (d # r))
          else ([], s)
      | _ \<Rightarrow> ([], s))"

definition match_exp :: "pystr \<Rightarrow> pystr \<times> pystr" where
  "match_exp s =
     (case s of
        [] \<Rightarrow> ([], s)
      | e # r \<Rightarrow>
          if e = ord CHR ''e'' \<or> e = ord CHR ''E'' then
            (let (sign, r1) = (case r of c # r' \<Rightarrow>
                                 if c = ord CHR ''-'' \<or> c = ord CHR ''+'' then ([c], r') else ([], r)
                               | [] \<Rightarrow> ([], r))
             in case r1 of
                  [] \<Rightarrow> ([], s)
                | d # r2 \<Rightarrow>
                    if is_digit d
                    then (e # sign @ takeWhile is_digit r1, dropWhile is_digit r1)
                    else ([], s))
          else ([], s))"

definition match_number :: "pystr \<Rightarrow> (pyvalue \<times> pystr) option" where
  "match_number s =
     (case match_integer s of
        None \<Rightarrow> None
      | Some (integer, r) \<Rightarrow>
          (let (frac, r1) = match_frac r; (exp, r2) = match_exp r1
           in if frac = [] \<and> exp = [] then
                Some (PInt (case integer of
                              c # ds \<Rightarrow> if c = ord CHR ''-'' then - int_of_digits ds
                                        else int_of_digits integer
                            | [] \<Rightarrow> 0), r2)
              else Some (PFloat (integer @ frac @ exp), r2)))"

text \<open>\<^verbatim>\<open>s.startswith(p)\<close>, giving the text after the prefix.\<close>

fun strip_prefix :: "pystr \<Rightarrow> pystr \<Rightarrow> pystr option" where
  "strip_prefix [] s = Some s"
| "strip_prefix (p # ps) [] = None"
| "strip_prefix (p # ps) (c # cs) = (if p = c then strip_prefix ps cs else None)"

text \<open>
  The values that \<^verbatim>\<open>scan_once\<close> reads without recursion: strings, the literals and
  numbers, in the order in which the scanner tries them.
\<close>

definition scan_atom :: "pystr \<Rightarrow> (pyvalue \<times> pystr) option" where
  "scan_atom s =
     (case s of
        [] \<Rightarrow> None
      | c # cs \<Rightarrow>
          if c = ord CHR 0x22 then
            (case scanstring cs [] of None \<Rightarrow> None | Some (t, r) \<Rightarrow> Some (PStr t, r))
          else if c = ord CHR ''n'' \<and> strip_prefix (str ''null'') s \<noteq> None then
            Some (PNone, drop 4 s)
          else if c = ord CHR ''t'' \<and> strip_prefix (str ''true'') s \<noteq> None then
            Some (PBool True, drop 4 s)
          else if c = ord CHR ''f'' \<and> strip_prefix (str ''false'') s \<noteq> None then
            Some (PBool False, drop 5 s)
          else
            (case match_number s of
               Some res \<Rightarrow> Some res
             | None \<Rightarrow>
                 if c = ord CHR ''N'' \<and> strip_prefix (str ''NaN'') s \<noteq> None then
                   Some (PFloat (str ''NaN''), drop 3 s)
                 else if c = ord CHR ''I'' \<and> strip_prefix (str ''Infinity'') s \<noteq> None then
                   Some (PFloat (str ''Infinity''), drop 8 s)
                 else if c = ord CHR ''-'' \<and> strip_prefix (str ''-Infinity'') s \<noteq> None then
                   Some (PFloat (str ''-Infinity''), drop 9 s)
                 else None))"

text \<open>
  The recursive part. Python's recursion is bounded here by a counter that every call
  decrements; \<open>Exhausted\<close> is the result of a call that has none left, kept apart from
  a decoding error so that it cannot be mistaken for one.
\<close>

datatype 'a scan = Ok 'a pystr | DecodeError | Exhausted

fun scan_once :: "nat \<Rightarrow> pystr \<Rightarrow> pyvalue scan"
  and JSONObject :: "nat \<Rightarrow> (pystr \<times> pyvalue) list \<Rightarrow> pystr \<Rightarrow> pyvalue scan"
  and JSONArray :: "nat \<Rightarrow> pyvalue list \<Rightarrow> pystr \<Rightarrow> pyvalue scan"
where
  "scan_once 0 s = Exhausted"
| "scan_once (Suc n) s =
     (case s of
        [] \<Rightarrow> DecodeError
      | c # cs \<Rightarrow>
          if c = ord CHR ''{'' then
            (case skip_ws cs of
               [] \<Rightarrow> DecodeError
             | d # r \<Rightarrow>
                 if d = ord CHR ''}'' then Ok (PDict []) r
                 else if d = ord CHR 0x22 then JSONObject n [] r
                 else DecodeError)
          else if c = ord CHR ''['' then
            (case skip_ws cs of
               [] \<Rightarrow> DecodeError
             | d # r \<Rightarrow>
                 if d = ord CHR '']'' then Ok (PList []) r
                 else JSONArray n [] (d # r))
          else
            (case scan_atom s of None \<Rightarrow> DecodeError | Some (v, r) \<Rightarrow> Ok v r))"
| "JSONObject 0 pairs s = Exhausted"
| "JSONObject (Suc n) pairs s =
     (case scanstring s [] of
        None \<Rightarrow> DecodeError
      | Some (key, r) \<Rightarrow>
          (case skip_ws r of
             [] \<Rightarrow> DecodeError
           | c # r1 \<Rightarrow>
               if c \<noteq> ord CHR '':'' then DecodeError
               else
                 (case scan_once n (skip_ws r1) of
                    DecodeError \<Rightarrow> DecodeError
                  | Exhausted \<Rightarrow> Exhausted
                  | Ok v r2 \<Rightarrow>
                      (case skip_ws r2 of
                         [] \<Rightarrow> DecodeError
                       | d # r3 \<Rightarrow>
                           if d = ord CHR ''}'' then
                             Ok (PDict (dict_of_pairs (pairs @ [(key, v)]))) r3
                           else if d \<noteq> ord CHR '','' then DecodeError
                           else
                             (case skip_ws r3 of
                                [] \<Rightarrow> DecodeError
                              | q # r4 \<Rightarrow>
                                  if q \<noteq> ord CHR 0x22 then DecodeError
                                  else JSONObject n (pairs @ [(key, v)]) r4)))))"
| "JSONArray 0 vals s = Exhausted"
| "JSONArray (Suc n) vals s =
     (case scan_once n s of
        DecodeError \<Rightarrow> DecodeError
      | Exhausted \<Rightarrow> Exhausted
      | Ok v r \<Rightarrow>
          (case skip_ws r of
             [] \<Rightarrow> DecodeError
           | d # r1 \<Rightarrow>
               if d = ord CHR '']'' then Ok (PList (vals @ [v])) r1
               else if d \<noteq> ord CHR '','' then DecodeError
               else JSONArray n (vals @ [v]) (skip_ws r1)))"

text \<open>
  \<^verbatim>\<open>json.loads\<close>: skip leading whitespace, read one value, skip trailing whitespace and
  refuse extra data. Twice the length of the text plus two calls are always enough
  (\<open>scan_once_enough\<close> below), so \<open>Exhausted\<close> does not occur here.
\<close>

definition json_loads :: "pystr \<Rightarrow> pyvalue option" where
  "json_loads s =
     (case scan_once (2 * length s + 2) (skip_ws s) of
        Ok v r \<Rightarrow> if skip_ws r = [] then Some v else None
      | DecodeError \<Rightarrow> None
      | Exhausted \<Rightarrow> None)"

section \<open>Parsing the model's answers (\<^verbatim>\<open>ai_services.py\<close>)\<close>

text \<open>
  \<^verbatim>\<open>re.search\<close> for a pattern of the shape \<^verbatim>\<open>\[[\s\S]*\]\<close> or \<^verbatim>\<open>\{[\s\S]*\}\<close>: the
  match starts at the first opening character and, the star being greedy, runs to the
  last closing character of the text; there is none when no closing character follows
  the first opening one. The two delimiters differ.
\<close>

definition re_search :: "nat \<Rightarrow> nat \<Rightarrow> pystr \<Rightarrow> pystr option" where
  "re_search opening closing s =
     (let from_first = dropWhile (\<lambda>c. c \<noteq> opening) s;
          to_last = rev (dropWhile (\<lambda>c. c \<noteq> closing) (rev from_first))
      in if to_last = [] then None else Some to_last)"

definition parse_failure :: exn where
  "parse_failure = ValueError (str ''Failed to parse quiz response from AI'')"

text \<open>
  \<^verbatim>\<open>QuizGenerator.parse_quiz_response\<close>. Only \<^verbatim>\<open>JSONDecodeError\<close> is caught and turned
  into the \<^verbatim>\<open>ValueError\<close>; the \<^verbatim>\<open>AttributeError\<close> of \<^verbatim>\<open>data.get\<close> on a value that is
  no dictionary leaves the function as it is. The two \<^verbatim>\<open>print\<close> calls of the handler
  are not modelled.
\<close>

definition parse_quiz_response :: "pystr \<Rightarrow> exn + pyvalue" where
  "parse_quiz_response response =
     (case re_search (ord CHR ''['') (ord CHR '']'') response of
        Some json_match \<Rightarrow>
          (case json_loads json_match of
             None \<Rightarrow> Inl parse_failure
           | Some questions \<Rightarrow> Inr questions)
      | None \<Rightarrow>
          (case json_loads response of
             None \<Rightarrow> Inl parse_failure
           | Some data \<Rightarrow> py_get data (str ''questions'') data))"

definition feedback_dict :: "pyvalue \<Rightarrow> pyvalue \<Rightarrow> pyvalue \<Rightarrow> pyvalue" where
  "feedback_dict sa wa su =
     PDict [(str ''strength_analysis'', sa), (str ''weakness_analysis'', wa), (str ''suggestions'', su)]"

definition no_json_feedback :: pyvalue where
  "no_json_feedback =
     feedback_dict (PStr (str ''Good effort on the quiz.''))
       (PStr (str ''Some areas need improvement.''))
       (PStr (str ''Review the topics and try again.''))"

definition decode_error_feedback :: pyvalue where
  "decode_error_feedback =
     feedback_dict (PStr (str ''Keep practicing to improve.''))
       (PStr (str ''Review the material more thoroughly.''))
       (PStr (str ''Consider retaking the quiz after studying.''))"

text \<open>Sequencing of steps that may raise: the first exception ends the sequence.\<close>

definition bind_exn :: "exn + 'a \<Rightarrow> ('a \<Rightarrow> exn + 'b) \<Rightarrow> exn + 'b" where
  "bind_exn m f = (case m of Inl e \<Rightarrow> Inl e | Inr x \<Rightarrow> f x)"

text \<open>\<^verbatim>\<open>PerformanceAnalyzer.parse_feedback_response\<close>.\<close>

definition parse_feedback_response :: "pystr \<Rightarrow> exn + pyvalue" where
  "parse_feedback_response response =
     (case re_search (ord CHR ''{'') (ord CHR ''}'') response of
        Some json_match \<Rightarrow>
          (case json_loads json_match of
             None \<Rightarrow> Inr decode_error_feedback
           | Some feedback \<Rightarrow>
               bind_exn (py_get feedback (str ''strength_analysis'') (PStr [])) (\<lambda>sa.
               bind_exn (py_get feedback (str ''weakness_analysis'') (PStr [])) (\<lambda>wa.
               bind_exn (py_get feedback (str ''suggestions'') (PStr [])) (\<lambda>su.
               Inr (feedback_dict sa wa su)))))
      | None \<Rightarrow> Inr no_json_feedback)"

section \<open>The credential guard and the model calls\<close>

text \<open>
  The three places the key is read from: the settings \<^verbatim>\<open>GOOGLE_API_KEY\<close> and
  \<^verbatim>\<open>GEMINI_API_KEY\<close>, and the environment variable \<^verbatim>\<open>GOOGLE_API_KEY\<close>; each is a
  string or \<^verbatim>\<open>None\<close>.
\<close>

record settings =
  GOOGLE_API_KEY :: "pystr option"
  GEMINI_API_KEY :: "pystr option"
  environ_GOOGLE_API_KEY :: "pystr option"

text \<open>Python's \<^verbatim>\<open>a or b\<close> on such values: \<^verbatim>\<open>None\<close> and the empty string are false.\<close>

definition py_or :: "pystr option \<Rightarrow> pystr option \<Rightarrow> pystr option" where
  "py_or a b = (if a = None \<or> a = Some [] then b else a)"

definition placeholder_key :: pystr where
  "placeholder_key = str ''your_actual_gemini_api_key_here''"

definition not_configured :: exn where
  "not_configured = APIKeyError (str ''AI service not configured. Please contact administrator.'')"

text \<open>
  The start of \<^verbatim>\<open>QuizGenerator.__init__\<close> and of \<^verbatim>\<open>PerformanceAnalyzer.__init__\<close>, which
  are the same text: the key that the client is built with, or \<^verbatim>\<open>APIKeyError\<close>.
\<close>

definition api_key_guard :: "settings \<Rightarrow> exn + pystr" where
  "api_key_guard cfg =
     (let api_key = py_or (py_or (GOOGLE_API_KEY cfg) (GEMINI_API_KEY cfg)) (environ_GOOGLE_API_KEY cfg)
      in case api_key of
           None \<Rightarrow> Inl not_configured
         | Some k \<Rightarrow> if k = [] \<or> k = placeholder_key then Inl not_configured else Inr k)"

text \<open>
  A prompt is a fixed template filled with values, so it is represented by the values
  that reach the template: for a quiz the subject, the first 5000 characters of the
  text, the difficulty and the number of questions; for feedback the subject, the
  difficulty, the three counts and the first ten answer summaries.
\<close>

record answer_summary =
  summary_question :: pyvalue
  summary_selected :: pystr
  summary_correct :: pyvalue
  summary_is_correct :: bool

datatype prompt =
    QuizPrompt pystr pystr pystr int
  | FeedbackPrompt pystr pystr int int int "answer_summary list"

definition generate_quiz_prompt :: "pystr \<Rightarrow> pystr \<Rightarrow> pystr \<Rightarrow> int \<Rightarrow> prompt" where
  "generate_quiz_prompt pdf_text subj diff num_questions =
     QuizPrompt subj (take 5000 pdf_text) diff num_questions"

definition generate_feedback_prompt ::
  "pystr \<Rightarrow> int \<Rightarrow> int \<Rightarrow> int \<Rightarrow> answer_summary list \<Rightarrow> pystr \<Rightarrow> prompt" where
  "generate_feedback_prompt subj total_questions correct_count wrong_count user_answers diff =
     FeedbackPrompt subj diff total_questions correct_count wrong_count (take 10 user_answers)"

text \<open>
  The model endpoint is a parameter: \<open>llm p\<close> is the text it answers to the prompt
  \<open>p\<close>, or the message of the exception that \<^verbatim>\<open>llm.invoke\<close> raises. Each operation
  below returns, next to its result, the prompts it has sent.
\<close>

type_synonym llm = "prompt \<Rightarrow> pystr + pystr"

definition generate_questions :: "llm \<Rightarrow> pystr \<Rightarrow> pystr \<Rightarrow> pystr \<Rightarrow> int \<Rightarrow> (exn + pyvalue) \<times> prompt list" where
  "generate_questions llm pdf_text subj diff num_questions =
     (let p = generate_quiz_prompt pdf_text subj diff num_questions
      in case llm p of
           Inl cause \<Rightarrow> (Inl (ModelCallError cause), [p])
         | Inr response_text \<Rightarrow> (parse_quiz_response response_text, [p]))"

definition generate_quiz_questions ::
  "settings \<Rightarrow> llm \<Rightarrow> pystr \<Rightarrow> pystr \<Rightarrow> pystr \<Rightarrow> int \<Rightarrow> (exn + pyvalue) \<times> prompt list" where
  "generate_quiz_questions cfg llm pdf_text subj diff num_questions =
     (case api_key_guard cfg of
        Inl e \<Rightarrow> (Inl e, [])
      | Inr api_key \<Rightarrow> generate_questions llm pdf_text subj diff num_questions)"

definition generate_feedback ::
  "llm \<Rightarrow> pystr \<Rightarrow> int \<Rightarrow> int \<Rightarrow> int \<Rightarrow> answer_summary list \<Rightarrow> pystr \<Rightarrow> (exn + pyvalue) \<times> prompt list" where
  "generate_feedback llm subj total_questions correct_count wrong_count user_answers diff =
     (let p = generate_feedback_prompt subj total_questions correct_count wrong_count user_answers diff
      in case llm p of
           Inl cause \<Rightarrow> (Inl (ModelCallError cause), [p])
         | Inr response_text \<Rightarrow> (parse_feedback_response response_text, [p]))"

definition generate_performance_feedback ::
  "settings \<Rightarrow> llm \<Rightarrow> pystr \<Rightarrow> int \<Rightarrow> int \<Rightarrow> int \<Rightarrow> answer_summary list \<Rightarrow> pystr
     \<Rightarrow> (exn + pyvalue) \<times> prompt list" where
  "generate_performance_feedback cfg llm subj total_questions correct_count wrong_count user_answers diff =
     (case api_key_guard cfg of
        Inl e \<Rightarrow> (Inl e, [])
      | Inr api_key \<Rightarrow> generate_feedback llm subj total_questions correct_count wrong_count user_answers diff)"

section \<open>The stored records (\<^verbatim>\<open>models.py\<close>)\<close>

text \<open>
  One record type per model, with the primary key and the foreign keys as numbers. The
  text columns of a question hold the Python values that the view hands to the ORM;
  the ORM's conversion of a value to column text and the time stamps are outside the
  model.
\<close>

record PDFDocument =
  pdf_id :: nat
  pdf_user :: nat
  pdf_title :: pystr
  pdf_file :: "pystr option"
  pdf_text_content :: "pystr option"

record Quiz =
  quiz_id :: nat
  quiz_user :: nat
  quiz_pdf :: nat
  quiz_subject :: pystr
  quiz_difficulty :: pystr
  number_of_questions :: int
  is_completed :: bool

record Question =
  question_id :: nat
  question_quiz :: nat
  question_text :: pyvalue
  option_a :: pyvalue
  option_b :: pyvalue
  option_c :: pyvalue
  option_d :: pyvalue
  correct_answer :: pyvalue
  explanation :: pyvalue
  question_order :: nat

record UserAnswer =
  answer_id :: nat
  answer_user :: nat
  answer_quiz :: nat
  answer_question :: nat
  answer_selected :: pystr
  answer_is_correct :: bool

record Result =
  result_id :: nat
  result_user :: nat
  result_quiz :: nat
  result_score :: int
  result_total_questions :: int
  result_correct_answers :: int
  result_wrong_answers :: int
  result_percentage :: rat
  result_strength_analysis :: pyvalue
  result_weakness_analysis :: pyvalue
  result_suggestions :: pyvalue

text \<open>The tables, each in insertion order, and the next primary key of each table.\<close>

record database =
  db_documents :: "PDFDocument list"
  db_quizzes :: "Quiz list"
  db_questions :: "Question list"
  db_answers :: "UserAnswer list"
  db_results :: "Result list"
  next_pdf_id :: nat
  next_quiz_id :: nat
  next_question_id :: nat
  next_answer_id :: nat
  next_result_id :: nat

text \<open>\<^verbatim>\<open>objects.create\<close>: the new row gets the next primary key of its table.\<close>

definition PDFDocument_create :: "nat \<Rightarrow> pystr \<Rightarrow> pystr option \<Rightarrow> pystr option \<Rightarrow> database \<Rightarrow> database" where
  "PDFDocument_create usr ttl fl txt db =
     db\<lparr>db_documents := db_documents db @
           [\<lparr>pdf_id = next_pdf_id db, pdf_user = usr, pdf_title = ttl, pdf_file = fl,
             pdf_text_content = txt\<rparr>],
        next_pdf_id := Suc (next_pdf_id db)\<rparr>"

definition Quiz_create :: "nat \<Rightarrow> nat \<Rightarrow> pystr \<Rightarrow> pystr \<Rightarrow> int \<Rightarrow> database \<Rightarrow> database" where
  "Quiz_create usr pdf subj diff num_questions db =
     db\<lparr>db_quizzes := db_quizzes db @
           [\<lparr>quiz_id = next_quiz_id db, quiz_user = usr, quiz_pdf = pdf, quiz_subject = subj,
             quiz_difficulty = diff, number_of_questions = num_questions, is_completed = False\<rparr>],
        next_quiz_id := Suc (next_quiz_id db)\<rparr>"

text \<open>The keyword arguments of \<^verbatim>\<open>Question.objects.create\<close> other than the quiz and the order.\<close>

record question_fields =
  f_question_text :: pyvalue
  f_option_a :: pyvalue
  f_option_b :: pyvalue
  f_option_c :: pyvalue
  f_option_d :: pyvalue
  f_correct_answer :: pyvalue
  f_explanation :: pyvalue

definition Question_create :: "nat \<Rightarrow> question_fields \<Rightarrow> nat \<Rightarrow> database \<Rightarrow> database" where
  "Question_create quiz kw idx db =
     db\<lparr>db_questions := db_questions db @
           [\<lparr>question_id = next_question_id db, question_quiz = quiz,
             question_text = f_question_text kw,
             option_a = f_option_a kw, option_b = f_option_b kw,
             option_c = f_option_c kw, option_d = f_option_d kw,
             correct_answer = f_correct_answer kw, explanation = f_explanation kw,
             question_order = idx\<rparr>],
        next_question_id := Suc (next_question_id db)\<rparr>"

text \<open>\<^verbatim>\<open>quiz.is_completed = True; quiz.save()\<close>.\<close>

definition Quiz_save_completed :: "nat \<Rightarrow> database \<Rightarrow> database" where
  "Quiz_save_completed quiz db =
     db\<lparr>db_quizzes := map (\<lambda>q. if quiz_id q = quiz then q\<lparr>is_completed := True\<rparr> else q) (db_quizzes db)\<rparr>"

text \<open>
  \<^verbatim>\<open>quiz.delete()\<close>: every foreign key of the models is declared with
  \<^verbatim>\<open>on_delete=CASCADE\<close>, so the quiz row goes with its questions, its results, its
  answers and the answers to its questions. Documents have no key to a quiz.
\<close>

definition Quiz_delete :: "nat \<Rightarrow> database \<Rightarrow> database" where
  "Quiz_delete quiz db =
     (let gone = map question_id (filter (\<lambda>q. question_quiz q = quiz) (db_questions db))
      in db\<lparr>db_quizzes := filter (\<lambda>q. quiz_id q \<noteq> quiz) (db_quizzes db),
            db_questions := filter (\<lambda>q. question_quiz q \<noteq> quiz) (db_questions db),
            db_answers := filter (\<lambda>a. answer_quiz a \<noteq> quiz \<and> answer_question a \<notin> set gone) (db_answers db),
            db_results := filter (\<lambda>r. result_quiz r \<noteq> quiz) (db_results db)\<rparr>)"

text \<open>\<^verbatim>\<open>quiz.questions.all()\<close>, in the order of \<^verbatim>\<open>Question.Meta.ordering\<close>.\<close>

definition quiz_questions :: "database \<Rightarrow> nat \<Rightarrow> Question list" where
  "quiz_questions db quiz = sort_key question_order (filter (\<lambda>q. question_quiz q = quiz) (db_questions db))"

text \<open>
  \<^verbatim>\<open>UserAnswer.objects.update_or_create(user, quiz, question, defaults)\<close>: the row is
  looked up by the three keys; one match is updated, several raise
  \<^verbatim>\<open>MultipleObjectsReturned\<close>, none creates a row, which the unique index on
  \<^verbatim>\<open>(user, question)\<close> of \<^verbatim>\<open>UserAnswer.Meta\<close> refuses with \<^verbatim>\<open>IntegrityError\<close> when
  the pair is there already.
\<close>

definition update_or_create ::
  "nat \<Rightarrow> nat \<Rightarrow> nat \<Rightarrow> pystr \<Rightarrow> bool \<Rightarrow> database \<Rightarrow> (exn + unit) \<times> database" where
  "update_or_create usr quiz question selected correct db =
     (case filter (\<lambda>a. answer_user a = usr \<and> answer_quiz a = quiz \<and> answer_question a = question)
             (db_answers db) of
        [] \<Rightarrow>
          if \<exists>a \<in> set (db_answers db). answer_user a = usr \<and> answer_question a = question
          then (Inl IntegrityError, db)
          else (Inr (),
                db\<lparr>db_answers := db_answers db @
                      [\<lparr>answer_id = next_answer_id db, answer_user = usr, answer_quiz = quiz,
                        answer_question = question, answer_selected = selected,
                        answer_is_correct = correct\<rparr>],
                   next_answer_id := Suc (next_answer_id db)\<rparr>)
      | [obj] \<Rightarrow>
          (Inr (),
           db\<lparr>db_answers :=
                 map (\<lambda>a. if answer_id a = answer_id obj
                          then a\<lparr>answer_selected := selected, answer_is_correct := correct\<rparr>
                          else a) (db_answers db)\<rparr>)
      | _ \<Rightarrow> (Inl MultipleObjectsReturned, db))"

definition Result_create ::
  "nat \<Rightarrow> nat \<Rightarrow> int \<Rightarrow> int \<Rightarrow> int \<Rightarrow> int \<Rightarrow> rat \<Rightarrow> pyvalue \<Rightarrow> pyvalue \<Rightarrow> pyvalue \<Rightarrow> database \<Rightarrow> database" where
  "Result_create usr quiz score total_questions correct_count wrong_count pct sa wa su db =
     db\<lparr>db_results := db_results db @
           [\<lparr>result_id = next_result_id db, result_user = usr, result_quiz = quiz,
             result_score = score, result_total_questions = total_questions,
             result_correct_answers = correct_count, result_wrong_answers = wrong_count,
             result_percentage = pct, result_strength_analysis = sa,
             result_weakness_analysis = wa, result_suggestions = su\<rparr>],
        next_result_id := Suc (next_result_id db)\<rparr>"

section \<open>Creating a quiz (\<^verbatim>\<open>views.py\<close>)\<close>

datatype response =
    Redirect_dashboard
  | Redirect_take_quiz nat
  | Redirect_quiz_result nat
  | Render_create_quiz nat
  | Http404

text \<open>
  The flash messages: a fixed error text, the text built from a caught exception, and
  the success text with the number of questions.
\<close>

datatype message =
    Error_message pystr
  | Failed_message exn
  | Success_message nat

text \<open>
  The fields of the posted form. \<open>form_name\<close> is the topic or the subject;
  \<open>form_num_questions\<close> is the value of \<^verbatim>\<open>int(request.POST.get('num_questions', 10))\<close>
  (a text that \<^verbatim>\<open>int\<close> refuses ends the request before anything is stored).
\<close>

record quiz_form =
  form_name :: "pystr option"
  form_difficulty :: "pystr option"
  form_num_questions :: int

text \<open>
  The keyword arguments built from one element of the parsed list; evaluation is from
  left to right and stops at the first \<^verbatim>\<open>get\<close> that raises.
\<close>

definition question_kwargs :: "pyvalue \<Rightarrow> exn + question_fields" where
  "question_kwargs q_data =
     bind_exn (py_get q_data (str ''question'') (PStr [])) (\<lambda>text.
     bind_exn (py_get q_data (str ''options'') (PDict [])) (\<lambda>oa.
     bind_exn (py_get oa (str ''A'') (PStr [])) (\<lambda>a.
     bind_exn (py_get q_data (str ''options'') (PDict [])) (\<lambda>ob.
     bind_exn (py_get ob (str ''B'') (PStr [])) (\<lambda>b.
     bind_exn (py_get q_data (str ''options'') (PDict [])) (\<lambda>oc.
     bind_exn (py_get oc (str ''C'') (PStr [])) (\<lambda>c.
     bind_exn (py_get q_data (str ''options'') (PDict [])) (\<lambda>od.
     bind_exn (py_get od (str ''D'') (PStr [])) (\<lambda>d.
     bind_exn (py_get q_data (str ''correct_answer'') (PStr (str ''A''))) (\<lambda>answer.
     bind_exn (py_get q_data (str ''explanation'') (PStr [])) (\<lambda>expl.
     Inr \<lparr>f_question_text = text, f_option_a = a, f_option_b = b, f_option_c = c,
          f_option_d = d, f_correct_answer = answer, f_explanation = expl\<rparr>)))))))))))"

text \<open>
  The loop \<^verbatim>\<open>for idx, q_data in enumerate(questions_data, 1)\<close>. An exception leaves the
  loop with the questions stored so far still in the table.
\<close>

fun save_questions :: "nat \<Rightarrow> nat \<Rightarrow> pyvalue list \<Rightarrow> database \<Rightarrow> exn option \<times> database" where
  "save_questions quiz idx [] db = (None, db)"
| "save_questions quiz idx (q_data # rest) db =
     (case question_kwargs q_data of
        Inl e \<Rightarrow> (Some e, db)
      | Inr kw \<Rightarrow> save_questions quiz (Suc idx) rest (Question_create quiz kw idx db))"

text \<open>
  The body of the \<^verbatim>\<open>try\<close> statement, which is the same text in both views: generate,
  store the questions, set the completion flag. It gives the number of questions, or the
  exception together with the tables as they are when it is raised.
\<close>

definition generate_and_save ::
  "settings \<Rightarrow> llm \<Rightarrow> nat \<Rightarrow> pystr \<Rightarrow> pystr \<Rightarrow> pystr \<Rightarrow> int \<Rightarrow> database \<Rightarrow> (exn + nat) \<times> database" where
  "generate_and_save cfg llm quiz pdf_text subj diff num_questions db =
     (case fst (generate_quiz_questions cfg llm pdf_text subj diff num_questions) of
        Inl e \<Rightarrow> (Inl e, db)
      | Inr questions_data \<Rightarrow>
          (case py_iter questions_data of
             Inl e \<Rightarrow> (Inl e, db)
           | Inr items \<Rightarrow>
               (case save_questions quiz 1 items db of
                  (Some e, db1) \<Rightarrow> (Inl e, db1)
                | (None, db1) \<Rightarrow> (Inr (length items), Quiz_save_completed quiz db1))))"

text \<open>
  The two \<^verbatim>\<open>except\<close> clauses, again the same text in both views: the message differs
  with the exception, \<^verbatim>\<open>quiz.delete()\<close> and the redirect do not.
\<close>

definition failure_message :: "exn \<Rightarrow> message" where
  "failure_message e =
     (case e of
        APIKeyError m \<Rightarrow> Error_message (str ''AI service not configured. Please contact administrator.'')
      | _ \<Rightarrow> Failed_message e)"

definition generate_or_delete ::
  "settings \<Rightarrow> llm \<Rightarrow> nat \<Rightarrow> pystr \<Rightarrow> pystr \<Rightarrow> pystr \<Rightarrow> int \<Rightarrow> database
     \<Rightarrow> (response \<times> message) \<times> database" where
  "generate_or_delete cfg llm quiz pdf_text subj diff num_questions db =
     (case generate_and_save cfg llm quiz pdf_text subj diff num_questions db of
        (Inr n, db1) \<Rightarrow> ((Redirect_take_quiz quiz, Success_message n), db1)
      | (Inl e, db1) \<Rightarrow> ((Redirect_dashboard, failure_message e), Quiz_delete quiz db1))"

text \<open>
  \<^verbatim>\<open>difficulty in ['Easy', 'Medium', 'Hard']\<close>, where the posted difficulty is a text or
  \<^verbatim>\<open>None\<close>, and the text of a difficulty that has passed the test.
\<close>

definition valid_difficulty :: "pystr option \<Rightarrow> bool" where
  "valid_difficulty d \<longleftrightarrow> d \<in> {Some (str ''Easy''), Some (str ''Medium''), Some (str ''Hard'')}"

definition difficulty_text :: "pystr option \<Rightarrow> pystr" where
  "difficulty_text d = (case d of Some t \<Rightarrow> t | None \<Rightarrow> [])"

text \<open>
  \<^verbatim>\<open>create_quiz_from_topic\<close>, for the signed-in user \<open>usr\<close>; \<open>post\<close> says whether the
  request method is POST. A request that is refused or not a POST has no message or
  the message of the refusal, and leaves the tables alone.
\<close>

definition create_quiz_from_topic ::
  "settings \<Rightarrow> llm \<Rightarrow> nat \<Rightarrow> bool \<Rightarrow> quiz_form \<Rightarrow> database \<Rightarrow> (response \<times> message option) \<times> database" where
  "create_quiz_from_topic cfg llm usr post form db =
     (if post then
        (case form_name form of
           None \<Rightarrow> ((Redirect_dashboard, Some (Error_message (str ''Please provide a topic''))), db)
         | Some topic \<Rightarrow>
             if topic = [] then
               ((Redirect_dashboard, Some (Error_message (str ''Please provide a topic''))), db)
             else if \<not> valid_difficulty (form_difficulty form) then
               ((Redirect_dashboard, Some (Error_message (str ''Invalid difficulty level''))), db)
             else if form_num_questions form < 1 \<or> form_num_questions form > 50 then
               ((Redirect_dashboard,
                 Some (Error_message (str ''Number of questions must be between 1 and 50''))), db)
             else
               (let diff = difficulty_text (form_difficulty form);
                    pdf_doc = next_pdf_id db;
                    db1 = PDFDocument_create usr (str ''Topic: '' @ topic) None
                            (Some (str ''Topic: '' @ topic)) db;
                    quiz = next_quiz_id db1;
                    db2 = Quiz_create usr pdf_doc topic diff (form_num_questions form) db1
                in case generate_or_delete cfg llm quiz (str ''Generate questions about: '' @ topic)
                          topic diff (form_num_questions form) db2 of
                     ((resp, msg), db3) \<Rightarrow> ((resp, Some msg), db3)))
      else ((Redirect_dashboard, None), db))"

text \<open>\<^verbatim>\<open>create_quiz\<close>, for the document \<open>pdf\<close> of the signed-in user.\<close>

definition create_quiz ::
  "settings \<Rightarrow> llm \<Rightarrow> nat \<Rightarrow> nat \<Rightarrow> bool \<Rightarrow> quiz_form \<Rightarrow> database \<Rightarrow> (response \<times> message option) \<times> database" where
  "create_quiz cfg llm usr pdf post form db =
     (case find (\<lambda>d. pdf_id d = pdf \<and> pdf_user d = usr) (db_documents db) of
        None \<Rightarrow> ((Http404, None), db)
      | Some pdf_doc \<Rightarrow>
          if post then
            (case form_name form of
               None \<Rightarrow> ((Redirect_dashboard, Some (Error_message (str ''Please provide a subject name''))), db)
             | Some subj \<Rightarrow>
                 if subj = [] then
                   ((Redirect_dashboard, Some (Error_message (str ''Please provide a subject name''))), db)
                 else if \<not> valid_difficulty (form_difficulty form) then
                   ((Redirect_dashboard, Some (Error_message (str ''Invalid difficulty level''))), db)
                 else if form_num_questions form < 1 \<or> form_num_questions form > 50 then
                   ((Redirect_dashboard,
                     Some (Error_message (str ''Number of questions must be between 1 and 50''))), db)
                 else
                   (case pdf_text_content pdf_doc of
                      None \<Rightarrow>
                        ((Redirect_dashboard,
                          Some (Error_message (str ''PDF has no extractable text content''))), db)
                    | Some text_content \<Rightarrow>
                        if text_content = [] then
                          ((Redirect_dashboard,
                            Some (Error_message (str ''PDF has no extractable text content''))), db)
                        else
                          (let diff = difficulty_text (form_difficulty form);
                               quiz = next_quiz_id db;
                               db1 = Quiz_create usr pdf subj diff (form_num_questions form) db
                           in case generate_or_delete cfg llm quiz text_content subj diff
                                     (form_num_questions form) db1 of
                                ((resp, msg), db2) \<Rightarrow> ((resp, Some msg), db2))))
          else ((Render_create_quiz pdf, None), db))"

section \<open>Submitting a quiz (\<^verbatim>\<open>views.py\<close>)\<close>

text \<open>The decimal text of a number, as an f-string renders a primary key.\<close>

fun decimal :: "nat \<Rightarrow> pystr" where
  "decimal n = (if n < 10 then [ord CHR ''0'' + n] else decimal (n div 10) @ [ord CHR ''0'' + n mod 10])"

definition answer_key :: "Question \<Rightarrow> pystr" where
  "answer_key question = str ''question_'' @ decimal (question_id question)"

text \<open>The counters and the list that the grading loop builds.\<close>

record grading =
  score :: int
  correct_count :: int
  wrong_count :: int
  user_answers :: "answer_summary list"

text \<open>
  The loop \<^verbatim>\<open>for question in questions\<close> over the posted form \<open>POST\<close>. An answer that
  is missing or empty is skipped by \<^verbatim>\<open>if selected_answer\<close>; an exception of the upsert
  leaves the loop.
\<close>

fun grade_questions ::
  "nat \<Rightarrow> nat \<Rightarrow> (pystr \<rightharpoonup> pystr) \<Rightarrow> Question list \<Rightarrow> grading \<Rightarrow> database \<Rightarrow> (exn + grading) \<times> database" where
  "grade_questions usr quiz POST [] g db = (Inr g, db)"
| "grade_questions usr quiz POST (question # rest) g db =
     (case POST (answer_key question) of
        None \<Rightarrow> grade_questions usr quiz POST rest g db
      | Some selected_answer \<Rightarrow>
          if selected_answer = [] then grade_questions usr quiz POST rest g db
          else
            (let correct = (PStr selected_answer = correct_answer question);
                 g1 = (if correct then g\<lparr>score := score g + 1, correct_count := correct_count g + 1\<rparr>
                       else g\<lparr>wrong_count := wrong_count g + 1\<rparr>);
                 g2 = g1\<lparr>user_answers := user_answers g1 @
                           [\<lparr>summary_question = question_text question,
                             summary_selected = selected_answer,
                             summary_correct = correct_answer question,
                             summary_is_correct = correct\<rparr>]\<rparr>
             in case update_or_create usr quiz (question_id question) selected_answer correct db of
                  (Inl e, db1) \<Rightarrow> (Inl e, db1)
                | (Inr u, db1) \<Rightarrow> grade_questions usr quiz POST rest g2 db1))"

text \<open>
  Python's floats are idealised as exact rationals. \<open>py_truediv\<close> is \<^verbatim>\<open>/\<close> on
  integers, which raises on a zero divisor; \<open>py_round2\<close> is \<^verbatim>\<open>round(x, 2)\<close>, which
  rounds to the nearest multiple of a hundredth and a tie to the even one.
\<close>

definition py_truediv :: "int \<Rightarrow> int \<Rightarrow> exn + rat" where
  "py_truediv a b = (if b = 0 then Inl ZeroDivisionError else Inr (of_int a / of_int b))"

definition py_round2 :: "rat \<Rightarrow> rat" where
  "py_round2 x =
     (let y = x * 100; f = \<lfloor>y\<rfloor>; d = y - of_int f
      in (if d < 1 / 2 then of_int f
          else if 1 / 2 < d then of_int (f + 1)
          else if even f then of_int f
          else of_int (f + 1)) / 100)"

text \<open>\<^verbatim>\<open>(score / total_questions * 100) if total_questions > 0 else 0\<close>.\<close>

definition percentage :: "int \<Rightarrow> int \<Rightarrow> exn + rat" where
  "percentage scr total_questions =
     (if total_questions > 0 then bind_exn (py_truediv scr total_questions) (\<lambda>q. Inr (q * 100))
      else Inr 0)"

definition not_configured_feedback :: pyvalue where
  "not_configured_feedback =
     feedback_dict
       (PStr (str ''AI service not configured. Please contact administrator for detailed feedback.''))
       (PStr (str ''AI service not configured. Please contact administrator for detailed feedback.''))
       (PStr (str ''AI service not configured. Please contact administrator for detailed feedback.''))"

definition model_failure_feedback :: pyvalue where
  "model_failure_feedback =
     feedback_dict (PStr (str ''Keep practicing to improve your understanding.''))
       (PStr (str ''Review the topics you got wrong.''))
       (PStr (str ''Consider retaking the quiz after studying.''))"

text \<open>
  The \<^verbatim>\<open>try\<close> statement around \<^verbatim>\<open>generate_performance_feedback\<close>: \<^verbatim>\<open>APIKeyError\<close> and
  every other exception are caught, each with a feedback of its own.
\<close>

definition feedback_or_fallback :: "exn + pyvalue \<Rightarrow> pyvalue" where
  "feedback_or_fallback outcome =
     (case outcome of
        Inr feedback \<Rightarrow> feedback
      | Inl (APIKeyError m) \<Rightarrow> not_configured_feedback
      | Inl e \<Rightarrow> model_failure_feedback)"

text \<open>
  \<^verbatim>\<open>submit_quiz\<close>, for the signed-in user \<open>usr\<close>. An exception that the view does not
  catch is the result \<open>Inl\<close>, with the tables as they are when it is raised. The
  session entry \<^verbatim>\<open>last_result_id\<close> is not modelled.
\<close>

definition submit_quiz ::
  "settings \<Rightarrow> llm \<Rightarrow> nat \<Rightarrow> nat \<Rightarrow> bool \<Rightarrow> (pystr \<rightharpoonup> pystr) \<Rightarrow> database \<Rightarrow> (exn + response) \<times> database" where
  "submit_quiz cfg llm usr quiz post POST db =
     (case find (\<lambda>q. quiz_id q = quiz \<and> quiz_user q = usr) (db_quizzes db) of
        None \<Rightarrow> (Inr Http404, db)
      | Some quiz_row \<Rightarrow>
          if post then
            (let questions = quiz_questions db quiz;
                 total_questions = int (length questions)
             in case grade_questions usr quiz POST questions
                       \<lparr>score = 0, correct_count = 0, wrong_count = 0, user_answers = []\<rparr> db of
                  (Inl e, db1) \<Rightarrow> (Inl e, db1)
                | (Inr g, db1) \<Rightarrow>
                    (case percentage (score g) total_questions of
                       Inl e \<Rightarrow> (Inl e, db1)
                     | Inr pct \<Rightarrow>
                         (let feedback = feedback_or_fallback
                                (fst (generate_performance_feedback cfg llm (quiz_subject quiz_row)
                                        total_questions (correct_count g) (wrong_count g)
                                        (user_answers g) (quiz_difficulty quiz_row)))
                          in case bind_exn (py_get feedback (str ''strength_analysis'') (PStr [])) (\<lambda>sa.
                                  bind_exn (py_get feedback (str ''weakness_analysis'') (PStr [])) (\<lambda>wa.
                                  bind_exn (py_get feedback (str ''suggestions'') (PStr [])) (\<lambda>su.
                                  Inr (sa, wa, su)))) of
                               Inl e \<Rightarrow> (Inl e, db1)
                             | Inr (sa, wa, su) \<Rightarrow>
                                 (Inr (Redirect_quiz_result quiz),
                                  Result_create usr quiz (score g) total_questions (correct_count g)
                                    (wrong_count g) (py_round2 pct) sa wa su db1))))
          else (Inr (Redirect_take_quiz quiz), db))"

section \<open>Notions used to state the properties\<close>

text \<open>The member of a dictionary under a key, or a default: what \<^verbatim>\<open>d.get(k, default)\<close> returns.\<close>

definition member_or :: "(pystr \<times> pyvalue) list \<Rightarrow> pystr \<Rightarrow> pyvalue \<Rightarrow> pyvalue" where
  "member_or d k dflt = (case map_of d k of None \<Rightarrow> dflt | Some v \<Rightarrow> v)"

text \<open>A value that is a string with at least one character.\<close>

fun nonempty_text :: "pyvalue \<Rightarrow> bool" where
  "nonempty_text (PStr s) = (s \<noteq> [])"
| "nonempty_text _ = False"

text \<open>
  The credential that is configured: the first of the three sources that is set to a
  text with at least one character, if there is one.
\<close>

definition configured_credential :: "settings \<Rightarrow> pystr option" where
  "configured_credential cfg =
     (case filter (\<lambda>k. k \<noteq> None \<and> k \<noteq> Some [])
             [GOOGLE_API_KEY cfg, GEMINI_API_KEY cfg, environ_GOOGLE_API_KEY cfg] of
        [] \<Rightarrow> None
      | k # ks \<Rightarrow> k)"

text \<open>
  The answer that the grading loop takes for a question: the posted one, unless it is
  missing or empty. A question is answered right or wrong only when it has one.
\<close>

definition selected_of :: "(pystr \<rightharpoonup> pystr) \<Rightarrow> Question \<Rightarrow> pystr option" where
  "selected_of POST q =
     (case POST (answer_key q) of None \<Rightarrow> None | Some s \<Rightarrow> if s = [] then None else Some s)"

definition answered :: "(pystr \<rightharpoonup> pystr) \<Rightarrow> Question \<Rightarrow> bool" where
  "answered POST q \<longleftrightarrow> selected_of POST q \<noteq> None"

definition answered_right :: "(pystr \<rightharpoonup> pystr) \<Rightarrow> Question \<Rightarrow> bool" where
  "answered_right POST q \<longleftrightarrow>
     (case selected_of POST q of None \<Rightarrow> False | Some s \<Rightarrow> PStr s = correct_answer q)"

definition answered_wrong :: "(pystr \<rightharpoonup> pystr) \<Rightarrow> Question \<Rightarrow> bool" where
  "answered_wrong POST q \<longleftrightarrow>
     (case selected_of POST q of None \<Rightarrow> False | Some s \<Rightarrow> PStr s \<noteq> correct_answer q)"

definition summary_of :: "(pystr \<rightharpoonup> pystr) \<Rightarrow> Question \<Rightarrow> answer_summary" where
  "summary_of POST q =
     \<lparr>summary_question = question_text q,
      summary_selected = (case selected_of POST q of None \<Rightarrow> [] | Some s \<Rightarrow> s),
      summary_correct = correct_answer q,
      summary_is_correct = answered_right POST q\<rparr>"

text \<open>The stored answers of one user to one question.\<close>

definition answers_for :: "database \<Rightarrow> nat \<Rightarrow> nat \<Rightarrow> UserAnswer list" where
  "answers_for db usr question =
     filter (\<lambda>a. answer_user a = usr \<and> answer_question a = question) (db_answers db)"

text \<open>At most one stored answer for every user and question.\<close>

definition unique_answers :: "database \<Rightarrow> bool" where
  "unique_answers db \<longleftrightarrow> distinct (map (\<lambda>a. (answer_user a, answer_question a)) (db_answers db))"

text \<open>
  What the storage layer keeps true of the answers and the questions: primary keys are
  unique and below the next key, there is at most one answer for every user and
  question, and an answer carries the quiz of its question.
\<close>

definition answers_ok :: "database \<Rightarrow> bool" where
  "answers_ok db \<longleftrightarrow>
     unique_answers db \<and>
     distinct (map answer_id (db_answers db)) \<and>
     (\<forall>a \<in> set (db_answers db). answer_id a < next_answer_id db) \<and>
     distinct (map question_id (db_questions db)) \<and>
     (\<forall>a \<in> set (db_answers db). \<forall>q \<in> set (db_questions db).
        answer_question a = question_id q \<longrightarrow> answer_quiz a = question_quiz q)"

text \<open>
  The outcome of grading a list of questions against a posted form: the counters and
  the summaries of the answered questions, in the order of the list.
\<close>

definition graded :: "(pystr \<rightharpoonup> pystr) \<Rightarrow> Question list \<Rightarrow> grading" where
  "graded POST qs =
     \<lparr>score = int (length (filter (answered_right POST) qs)),
      correct_count = int (length (filter (answered_right POST) qs)),
      wrong_count = int (length (filter (answered_wrong POST) qs)),
      user_answers = map (summary_of POST) (filter (answered POST) qs)\<rparr>"

text \<open>The keyword arguments that a stored question was created with.\<close>

definition fields_of :: "Question \<Rightarrow> question_fields" where
  "fields_of q =
     \<lparr>f_question_text = question_text q, f_option_a = option_a q, f_option_b = option_b q,
      f_option_c = option_c q, f_option_d = option_d q, f_correct_answer = correct_answer q,
      f_explanation = explanation q\<rparr>"

text \<open>
  The keys of the stored quizzes, and the quiz keys of the stored questions, are below
  the next quiz key: a new quiz gets a key that nothing refers to yet.
\<close>

definition quiz_keys_fresh :: "database \<Rightarrow> bool" where
  "quiz_keys_fresh db \<longleftrightarrow>
     (\<forall>q \<in> set (db_quizzes db). quiz_id q < next_quiz_id db) \<and>
     (\<forall>q \<in> set (db_questions db). question_quiz q < next_quiz_id db)"

text \<open>A model endpoint that answers every prompt with one text, and one that always fails.\<close>

definition answering :: "pystr \<Rightarrow> llm" where
  "answering text p = Inr text"

definition failing :: "pystr \<Rightarrow> llm" where
  "failing cause p = Inl cause"

text \<open>The empty tables, with every next key at one.\<close>

definition empty_db :: database where
  "empty_db =
     \<lparr>db_documents = [], db_quizzes = [], db_questions = [], db_answers = [], db_results = [],
      next_pdf_id = 1, next_quiz_id = 1, next_question_id = 1, next_answer_id = 1,
      next_result_id = 1\<rparr>"

text \<open>
  A quiz of user 7 on document 1 with four questions, whose correct answers are
  \<^verbatim>\<open>A\<close>, \<^verbatim>\<open>B\<close>, \<^verbatim>\<open>C\<close> and \<^verbatim>\<open>D\<close>, and no answers or results yet.
\<close>

definition example_question :: "nat \<Rightarrow> string \<Rightarrow> Question" where
  "example_question i answer =
     \<lparr>question_id = i, question_quiz = 1, question_text = PStr (str ''Which one?''),
      option_a = PStr (str ''first''), option_b = PStr (str ''second''),
      option_c = PStr (str ''third''), option_d = PStr (str ''fourth''),
      correct_answer = PStr (str answer), explanation = PStr [], question_order = i\<rparr>"

definition example_db :: database where
  "example_db =
     \<lparr>db_documents =
        [\<lparr>pdf_id = 1, pdf_user = 7, pdf_title = str ''Cells'', pdf_file = Some (str ''pdfs/cells.pdf''),
          pdf_text_content = Some (str ''The mitochondria is the powerhouse of the cell.'')\<rparr>],
      db_quizzes =
        [\<lparr>quiz_id = 1, quiz_user = 7, quiz_pdf = 1, quiz_subject = str ''Biology'',
          quiz_difficulty = str ''Easy'', number_of_questions = 4, is_completed = True\<rparr>],
      db_questions =
        [example_question 1 ''A'', example_question 2 ''B'', example_question 3 ''C'',
         example_question 4 ''D''],
      db_answers = [], db_results = [],
      next_pdf_id = 2, next_quiz_id = 2, next_question_id = 5, next_answer_id = 1,
      next_result_id = 1\<rparr>"

text \<open>No credential at all, and a usable one.\<close>

definition no_key :: settings where
  "no_key = \<lparr>GOOGLE_API_KEY = None, GEMINI_API_KEY = None, environ_GOOGLE_API_KEY = None\<rparr>"

definition some_key :: settings where
  "some_key = \<lparr>GOOGLE_API_KEY = Some (str ''secret''), GEMINI_API_KEY = None, environ_GOOGLE_API_KEY = None\<rparr>"

text \<open>
  Two posted forms for the example quiz. In the first, question 1 is answered right,
  question 2 with the right letter in lower case, question 3 not at all and question 4
  with the empty text; in the second, three questions are answered right and the
  fourth wrong.
\<close>

definition partial_post :: "pystr \<rightharpoonup> pystr" where
  "partial_post =
     [str ''question_1'' \<mapsto> str ''A'', str ''question_2'' \<mapsto> str ''b'', str ''question_4'' \<mapsto> []]"

definition full_post :: "pystr \<rightharpoonup> pystr" where
  "full_post =
     [str ''question_1'' \<mapsto> str ''A'', str ''question_2'' \<mapsto> str ''B'',
      str ''question_3'' \<mapsto> str ''C'', str ''question_4'' \<mapsto> str ''A'']"

text \<open>
  The example tables after user 7 has submitted the first form, with a model that
  answers \<^verbatim>\<open>{}\<close>: two stored answers and one result.
\<close>

definition example_db_submitted :: database where
  "example_db_submitted =
     example_db
       \<lparr>db_answers :=
          [\<lparr>answer_id = 1, answer_user = 7, answer_quiz = 1, answer_question = 1,
            answer_selected = str ''A'', answer_is_correct = True\<rparr>,
           \<lparr>answer_id = 2, answer_user = 7, answer_quiz = 1, answer_question = 2,
            answer_selected = str ''b'', answer_is_correct = False\<rparr>],
        db_results :=
          [\<lparr>result_id = 1, result_user = 7, result_quiz = 1, result_score = 1,
            result_total_questions = 4, result_correct_answers = 1, result_wrong_answers = 1,
            result_percentage = 25, result_strength_analysis = PStr [],
            result_weakness_analysis = PStr [], result_suggestions = PStr []\<rparr>],
        next_answer_id := 3, next_result_id := 2\<rparr>"

section \<open>Properties of the decoder\<close>

lemma length_skip_ws: "length (skip_ws s) \<le> length s"
  by (simp add: skip_ws_def length_dropWhile_le)

lemma skip_ws_Cons_length: "skip_ws s = c # r \<Longrightarrow> length r < length s"
  using length_skip_ws [of s] by simp

lemma skip_ws_less: "k < length (skip_ws s) \<Longrightarrow> k < length s"
  using length_skip_ws [of s] by simp

lemma scan_char_shorter: "scan_char c cs = Some (ch, r) \<Longrightarrow> length r \<le> length cs"
  by (auto simp: scan_char_def split: if_splits list.splits option.splits)

lemma scanstring_shorter: "scanstring s acc = Some (t, r) \<Longrightarrow> length r < length s"
proof (induction s acc rule: scanstring.induct)
  case (1 acc)
  then show ?case by simp
next
  case (2 c cs acc)
  show ?case
  proof (cases "c = ord CHR 0x22")
    case True
    with 2 show ?thesis by auto
  next
    case False
    with "2.prems" obtain ch r' where sc: "scan_char c cs = Some (ch, r')"
      and rest: "scanstring r' (ch # acc) = Some (t, r)"
      by (auto split: option.splits)
    from "2.IH" [OF False sc refl rest] scan_char_shorter [OF sc]
    show ?thesis by simp
  qed
qed

lemma match_integer_shorter: "match_integer s = Some (i, r) \<Longrightarrow> length r < length s"
  by (auto simp: match_integer_def Let_def split: list.splits if_splits
      intro: le_imp_less_Suc length_dropWhile_le le_SucI)

lemma match_frac_shorter: "match_frac s = (f, r) \<Longrightarrow> length r \<le> length s"
  by (auto simp: match_frac_def split: list.splits if_splits intro: le_SucI length_dropWhile_le)

lemma match_exp_shorter: "match_exp s = (f, r) \<Longrightarrow> length r \<le> length s"
  by (auto simp: match_exp_def Let_def split: list.splits if_splits prod.splits intro: le_SucI length_dropWhile_le)

lemma match_number_shorter: "match_number s = Some (v, r) \<Longrightarrow> length r < length s"
  apply (auto simp: match_number_def Let_def split: option.splits prod.splits if_splits
      dest!: match_integer_shorter match_frac_shorter match_exp_shorter)
  done

lemma scan_atom_shorter: "scan_atom s = Some (v, r) \<Longrightarrow> length r < length s"
  by (auto simp: scan_atom_def split: list.splits if_splits option.splits
      dest!: scanstring_shorter match_number_shorter)


lemma scan_shorter:
  "(\<forall>s v r. scan_once n s = Ok v r \<longrightarrow> length r < length s) \<and>
   (\<forall>p s v r. JSONObject n p s = Ok v r \<longrightarrow> length r < length s) \<and>
   (\<forall>vs s v r. JSONArray n vs s = Ok v r \<longrightarrow> length r < length s)"
proof (induction n)
  case 0
  show ?case by simp
next
  case (Suc n)
  then have V: "\<And>s v r. scan_once n s = Ok v r \<Longrightarrow> length r < length s"
    and O: "\<And>p s v r. JSONObject n p s = Ok v r \<Longrightarrow> length r < length s"
    and A: "\<And>vs s v r. JSONArray n vs s = Ok v r \<Longrightarrow> length r < length s"
    by blast+
  have 1: "length r < length s" if "scan_once (Suc n) s = Ok v r" for s v r
    using that
    by (auto split: list.splits if_splits option.splits
        dest!: skip_ws_Cons_length O A scan_atom_shorter)
  have 2: "length r < length s" if "JSONObject (Suc n) p s = Ok v r" for p s v r
    using that
    by (auto split: list.splits if_splits option.splits scan.splits
        dest!: skip_ws_Cons_length O V scanstring_shorter skip_ws_less)
  have 3: "length r < length s" if "JSONArray (Suc n) vs s = Ok v r" for vs s v r
    using that
    by (auto split: list.splits if_splits option.splits scan.splits
        dest!: skip_ws_Cons_length A V skip_ws_less)
  from 1 2 3 show ?case by blast
qed


lemma scan_once_shorter: "scan_once n s = Ok v r \<Longrightarrow> length r < length s"
  using scan_shorter by blast

lemma scan_enough:
  "(\<forall>s. 2 * length s + 1 \<le> n \<longrightarrow> scan_once n s \<noteq> Exhausted) \<and>
   (\<forall>p s. 2 * length s + 1 \<le> n \<longrightarrow> JSONObject n p s \<noteq> Exhausted) \<and>
   (\<forall>vs s. 2 * length s + 2 \<le> n \<longrightarrow> JSONArray n vs s \<noteq> Exhausted)"
proof (induction n)
  case 0
  show ?case by simp
next
  case (Suc n)
  then have V: "\<And>s. 2 * length s + 1 \<le> n \<Longrightarrow> scan_once n s \<noteq> Exhausted"
    and O: "\<And>p s. 2 * length s + 1 \<le> n \<Longrightarrow> JSONObject n p s \<noteq> Exhausted"
    and A: "\<And>vs s. 2 * length s + 2 \<le> n \<Longrightarrow> JSONArray n vs s \<noteq> Exhausted"
    by blast+
  have 1: "scan_once (Suc n) s \<noteq> Exhausted" if "2 * length s + 1 \<le> Suc n" for s
  proof (cases s)
    case Nil
    then show ?thesis by simp
  next
    case (Cons c cs)
    show ?thesis
    proof (cases "skip_ws cs")
      case Nil
      with Cons show ?thesis by (simp split: option.splits)
    next
      case (Cons d r)
      from skip_ws_Cons_length [OF this] have lr: "length r < length cs" .
      with that \<open>s = c # cs\<close> have "2 * length r + 1 \<le> n" "2 * length (d # r) + 2 \<le> n"
        by simp_all
      then have "JSONObject n [] r \<noteq> Exhausted" "JSONArray n [] (d # r) \<noteq> Exhausted"
        using O A by blast+
      with Cons \<open>s = c # cs\<close> show ?thesis by (simp split: option.splits)
    qed
  qed
  have 2: "JSONObject (Suc n) p s \<noteq> Exhausted" if "2 * length s + 1 \<le> Suc n" for p s
  proof -
    have a: "scan_once n (skip_ws r1) \<noteq> Exhausted"
      if "scanstring s [] = Some (key, r)" "skip_ws r = c # r1" for key r c r1
    proof -
      from that have "length r1 < length s"
        using scanstring_shorter skip_ws_Cons_length by fastforce
      with \<open>2 * length s + 1 \<le> Suc n\<close> length_skip_ws [of r1]
      have "2 * length (skip_ws r1) + 1 \<le> n" by simp
      then show ?thesis using V by blast
    qed
    have b: "JSONObject n p' r4 \<noteq> Exhausted"
      if "scanstring s [] = Some (key, r)" "skip_ws r = c # r1"
        "scan_once n (skip_ws r1) = Ok v r2" "skip_ws r2 = d # r3" "skip_ws r3 = q # r4"
      for key r c r1 v r2 d r3 q r4 p'
    proof -
      from that have "length r4 < length s"
        using scanstring_shorter [OF that(1)] skip_ws_Cons_length [OF that(2)]
          scan_once_shorter [OF that(3)] skip_ws_Cons_length [OF that(4)]
          skip_ws_Cons_length [OF that(5)] length_skip_ws [of r1]
        by simp
      with \<open>2 * length s + 1 \<le> Suc n\<close> have "2 * length r4 + 1 \<le> n" by simp
      then show ?thesis using O by blast
    qed
    show ?thesis
      using a b
      by (auto split: option.splits list.splits scan.splits)
  qed
  have 3: "JSONArray (Suc n) vs s \<noteq> Exhausted" if "2 * length s + 2 \<le> Suc n" for vs s
  proof -
    from that have a: "scan_once n s \<noteq> Exhausted" using V by simp
    have b: "JSONArray n vs' (skip_ws r1) \<noteq> Exhausted"
      if "scan_once n s = Ok v r" "skip_ws r = d # r1" for v r d r1 vs'
    proof -
      from scan_once_shorter [OF that(1)] skip_ws_Cons_length [OF that(2)] length_skip_ws [of r1]
      have "length (skip_ws r1) + 2 \<le> length s" by simp
      with \<open>2 * length s + 2 \<le> Suc n\<close> have "2 * length (skip_ws r1) + 2 \<le> n" by simp
      then show ?thesis using A by blast
    qed
    show ?thesis
      using a b
      by (auto split: list.splits scan.splits)
  qed
  from 1 2 3 show ?case by blast
qed

lemma JSONObject_PDict: "JSONObject n p s = Ok v r \<Longrightarrow> \<exists>d. v = PDict d"
  by (induction n arbitrary: p s)
     (auto split: option.splits list.splits scan.splits if_splits)


lemma skip_ws_not_ws: "\<not> is_ws c \<Longrightarrow> skip_ws (c # cs) = c # cs"
  by (simp add: skip_ws_def)

lemma scan_once_object: "scan_once n (ord CHR ''{'' # cs) = Ok v r \<Longrightarrow> \<exists>d. v = PDict d"
  by (cases n) (auto split: list.splits if_splits dest: JSONObject_PDict)


lemma json_loads_object:
  assumes "json_loads (ord CHR ''{'' # cs) = Some v"
  shows "\<exists>d. v = PDict d"
proof -
  have "skip_ws (ord CHR ''{'' # cs) = ord CHR ''{'' # cs"
    by (simp add: skip_ws_not_ws is_ws_def)
  with assms obtain r where "scan_once (2 * length (ord CHR ''{'' # cs) + 2) (ord CHR ''{'' # cs) = Ok v r"
    unfolding json_loads_def by (auto split: scan.splits if_splits)
  then show ?thesis by (rule scan_once_object)
qed


lemma json_loads_enough: "scan_once (2 * length s + 2) (skip_ws s) \<noteq> Exhausted"
  using scan_enough [of "2 * length s + 2"] length_skip_ws [of s] by simp

section \<open>Properties of the search and of the parsers\<close>

lemma re_search_Some:
  assumes "opening \<noteq> closing" and "re_search opening closing s = Some m"
  shows "\<exists>pre mid post. s = pre @ m @ post \<and> opening \<notin> set pre \<and> closing \<notin> set post \<and>
           m = opening # mid @ [closing]"
proof -
  define t where "t = dropWhile (\<lambda>c. c \<noteq> opening) s"
  define pre where "pre = takeWhile (\<lambda>c. c \<noteq> opening) s"
  define post where "post = rev (takeWhile (\<lambda>c. c \<noteq> closing) (rev t))"
  from assms(2) have m: "m = rev (dropWhile (\<lambda>c. c \<noteq> closing) (rev t))" and ne: "m \<noteq> []"
    by (auto simp: re_search_def Let_def t_def split: if_splits)
  have s: "s = pre @ t" by (simp add: pre_def t_def)
  have t: "t = m @ post"
  proof -
    have "m @ post = rev (takeWhile (\<lambda>c. c \<noteq> closing) (rev t) @ dropWhile (\<lambda>c. c \<noteq> closing) (rev t))"
      unfolding m post_def by (simp only: rev_append)
    also have "\<dots> = t" by simp
    finally show ?thesis by simp
  qed
  have pre: "opening \<notin> set pre"
    by (auto simp: pre_def dest: set_takeWhileD)
  have post: "closing \<notin> set post"
    by (auto simp: post_def dest: set_takeWhileD)
  from ne t have "t \<noteq> []" by auto
  then have "hd t = opening" unfolding t_def using hd_dropWhile [of "\<lambda>c. c \<noteq> opening" s] by auto
  with t ne have hd: "hd m = opening" by (cases m) auto
  from ne have "dropWhile (\<lambda>c. c \<noteq> closing) (rev t) \<noteq> []" by (simp add: m)
  then have "hd (dropWhile (\<lambda>c. c \<noteq> closing) (rev t)) = closing"
    using hd_dropWhile [of "\<lambda>c. c \<noteq> closing" "rev t"] by auto
  then have last: "last m = closing" using ne by (simp add: m last_rev)
  from ne obtain m' where m': "m = opening # m'" using hd by (cases m) auto
  with last assms(1) have "m' \<noteq> []" by auto
  then obtain mid where "m' = mid @ [closing]"
    using last m' by (metis append_butlast_last_id last_ConsR)
  with m' s t pre post show ?thesis by auto
qed


lemma py_get_PDict: "py_get (PDict d) k dflt = Inr (case map_of d k of None \<Rightarrow> dflt | Some v \<Rightarrow> v)"
  by (simp split: option.splits)

lemma json_loads_braces:
  assumes "re_search (ord CHR ''{'') (ord CHR ''}'') response = Some m" and "json_loads m = Some v"
  shows "\<exists>d. v = PDict d"
proof -
  from re_search_Some [OF _ assms(1)] obtain mid where "m = ord CHR ''{'' # mid @ [ord CHR ''}'']"
    by auto
  with assms(2) show ?thesis using json_loads_object by simp
qed


lemma parse_feedback_no_json:
  "re_search (ord CHR ''{'') (ord CHR ''}'') response = None \<Longrightarrow>
     parse_feedback_response response = Inr no_json_feedback"
  by (simp add: parse_feedback_response_def)

lemma parse_feedback_undecodable:
  "re_search (ord CHR ''{'') (ord CHR ''}'') response = Some m \<Longrightarrow> json_loads m = None \<Longrightarrow>
     parse_feedback_response response = Inr decode_error_feedback"
  by (simp add: parse_feedback_response_def)

lemma parse_feedback_decoded:
  assumes "re_search (ord CHR ''{'') (ord CHR ''}'') response = Some m" and "json_loads m = Some v"
  shows "\<exists>d. v = PDict d \<and>
           parse_feedback_response response =
             Inr (feedback_dict (member_or d (str ''strength_analysis'') (PStr []))
                    (member_or d (str ''weakness_analysis'') (PStr []))
                    (member_or d (str ''suggestions'') (PStr [])))"
proof -
  from json_loads_braces [OF assms] obtain d where "v = PDict d" by blast
  with assms show ?thesis
    by (simp add: parse_feedback_response_def bind_exn_def py_get_PDict member_or_def
        del: py_get.simps)
qed

lemma no_json_feedback_nonempty:
  "\<exists>a b c. no_json_feedback = feedback_dict a b c \<and> nonempty_text a \<and> nonempty_text b \<and> nonempty_text c"
  unfolding no_json_feedback_def
  by (rule exI, rule exI, rule exI, rule conjI, rule refl) (simp add: str_def)

lemma decode_error_feedback_nonempty:
  "\<exists>a b c. decode_error_feedback = feedback_dict a b c \<and> nonempty_text a \<and> nonempty_text b \<and> nonempty_text c"
  unfolding decode_error_feedback_def
  by (rule exI, rule exI, rule exI, rule conjI, rule refl) (simp add: str_def)

lemma parse_feedback_response_Inr:
  "\<exists>sa wa su. parse_feedback_response response = Inr (feedback_dict sa wa su)"
proof (cases "re_search (ord CHR ''{'') (ord CHR ''}'') response")
  case None
  from parse_feedback_no_json [OF this] no_json_feedback_nonempty show ?thesis by metis
next
  case (Some m)
  show ?thesis
  proof (cases "json_loads m")
    case None
    from parse_feedback_undecodable [OF Some None] decode_error_feedback_nonempty
    show ?thesis by metis
  next
    case (Some v)
    from parse_feedback_decoded [OF \<open>re_search _ _ response = Some m\<close> Some]
    show ?thesis by blast
  qed
qed

lemma parse_feedback_response_not_Inl: "parse_feedback_response r \<noteq> Inl e"
  using parse_feedback_response_Inr [of r] by auto







lemma question_kwargs_PDict:
  assumes "member_or d (str ''options'') (PDict []) = PDict opts"
  shows "question_kwargs (PDict d) =
     Inr \<lparr>f_question_text = member_or d (str ''question'') (PStr []),
          f_option_a = member_or opts (str ''A'') (PStr []),
          f_option_b = member_or opts (str ''B'') (PStr []),
          f_option_c = member_or opts (str ''C'') (PStr []),
          f_option_d = member_or opts (str ''D'') (PStr []),
          f_correct_answer = member_or d (str ''correct_answer'') (PStr (str ''A'')),
          f_explanation = member_or d (str ''explanation'') (PStr [])\<rparr>"
proof -
  have g: "py_get (PDict d) k dflt = Inr (member_or d k dflt)" for k dflt
    by (simp add: py_get_PDict member_or_def del: py_get.simps)
  have o: "py_get (PDict opts) k dflt = Inr (member_or opts k dflt)" for k dflt
    by (simp add: py_get_PDict member_or_def del: py_get.simps)
  show ?thesis
    unfolding question_kwargs_def g bind_exn_def sum.case assms o ..
qed

lemma generate_questions_parse:
  "llm (generate_quiz_prompt pdf_text subj diff n) = Inr text \<Longrightarrow>
     fst (generate_questions llm pdf_text subj diff n) = parse_quiz_response text"
  by (simp add: generate_questions_def Let_def)

text \<open>
  C10, as amended. When the substring from the first \<^verbatim>\<open>[\<close> to the last \<^verbatim>\<open>]\<close> decodes,
  \<^verbatim>\<open>parse_quiz_response\<close> returns the decoded value as it is, whatever its elements and
  its length are; when there is no such substring and the whole response decodes to an
  object, it returns the \<^verbatim>\<open>questions\<close> member of the object or, without one, the object
  itself, again as it is. The requested number of questions plays no part: the
  generation returns what the parser returns for the model's text. Missing fields are
  defaulted only when the keyword arguments of a stored question are built: the empty
  string for the text, for each option and for the explanation, \<^verbatim>\<open>A\<close> for the correct
  answer.
\<close>

theorem parse_quiz_response_unvalidated:
  "(\<forall>m v. re_search (ord CHR ''['') (ord CHR '']'') response = Some m \<and> json_loads m = Some v \<longrightarrow>
      parse_quiz_response response = Inr v) \<and>
   (\<forall>d. re_search (ord CHR ''['') (ord CHR '']'') response = None \<and>
        json_loads response = Some (PDict d) \<longrightarrow>
      parse_quiz_response response = Inr (member_or d (str ''questions'') (PDict d))) \<and>
   (\<forall>llm. llm (generate_quiz_prompt pdf_text subj diff n) = Inr response \<longrightarrow>
      fst (generate_questions llm pdf_text subj diff n) = parse_quiz_response response) \<and>
   (\<forall>d opts. member_or d (str ''options'') (PDict []) = PDict opts \<longrightarrow>
      question_kwargs (PDict d) =
        Inr \<lparr>f_question_text = member_or d (str ''question'') (PStr []),
             f_option_a = member_or opts (str ''A'') (PStr []),
             f_option_b = member_or opts (str ''B'') (PStr []),
             f_option_c = member_or opts (str ''C'') (PStr []),
             f_option_d = member_or opts (str ''D'') (PStr []),
             f_correct_answer = member_or d (str ''correct_answer'') (PStr (str ''A'')),
             f_explanation = member_or d (str ''explanation'') (PStr [])\<rparr>)"
proof (intro conjI allI impI)
  fix m v
  assume "re_search (ord CHR ''['') (ord CHR '']'') response = Some m \<and> json_loads m = Some v"
  then show "parse_quiz_response response = Inr v"
    by (simp add: parse_quiz_response_def)
next
  fix d
  assume "re_search (ord CHR ''['') (ord CHR '']'') response = None \<and>
        json_loads response = Some (PDict d)"
  then show "parse_quiz_response response = Inr (member_or d (str ''questions'') (PDict d))"
    by (simp add: parse_quiz_response_def py_get_PDict member_or_def del: py_get.simps)
next
  fix llm :: llm
  assume "llm (generate_quiz_prompt pdf_text subj diff n) = Inr response"
  then show "fst (generate_questions llm pdf_text subj diff n) = parse_quiz_response response"
    by (rule generate_questions_parse)
next
  fix d opts
  assume "member_or d (str ''options'') (PDict []) = PDict opts"
  then show "question_kwargs (PDict d) =
        Inr \<lparr>f_question_text = member_or d (str ''question'') (PStr []),
             f_option_a = member_or opts (str ''A'') (PStr []),
             f_option_b = member_or opts (str ''B'') (PStr []),
             f_option_c = member_or opts (str ''C'') (PStr []),
             f_option_d = member_or opts (str ''D'') (PStr []),
             f_correct_answer = member_or d (str ''correct_answer'') (PStr (str ''A'')),
             f_explanation = member_or d (str ''explanation'') (PStr [])\<rparr>"
    by (rule question_kwargs_PDict)
qed

theorem parse_quiz_response_unvalidated_witness:
  \<open>fst (generate_questions (\<lambda>p. Inr (str ''[7, {"question": "Q"}]'')) (str ''text'') (str ''Biology'')
          (str ''Easy'') 5) =
     Inr (PList [PInt 7, PDict [(str ''question'', PStr (str ''Q''))]]) \<and>
   parse_quiz_response (str ''{"quiz": 1}'') = Inr (PDict [(str ''quiz'', PInt 1)]) \<and>
   question_kwargs (PDict [(str ''question'', PStr (str ''Q''))]) =
     Inr \<lparr>f_question_text = PStr (str ''Q''), f_option_a = PStr [], f_option_b = PStr [],
          f_option_c = PStr [], f_option_d = PStr [], f_correct_answer = PStr (str ''A''),
          f_explanation = PStr []\<rparr>\<close>
proof -
  let ?r = \<open>str ''[7, {"question": "Q"}]''\<close>
  let ?d = \<open>[(str ''question'', PStr (str ''Q''))]\<close>
  have a: "re_search (ord CHR ''['') (ord CHR '']'') ?r = Some ?r"
    "json_loads ?r = Some (PList [PInt 7, PDict ?d])"
    by code_simp+
  have b: \<open>re_search (ord CHR ''['') (ord CHR '']'') (str ''{"quiz": 1}'') = None\<close>
    \<open>json_loads (str ''{"quiz": 1}'') = Some (PDict [(str ''quiz'', PInt 1)])\<close>
    by code_simp+
  have c: "member_or ?d (str ''options'') (PDict []) = PDict []"
    by (simp add: member_or_def str_def)
  note inst = parse_quiz_response_unvalidated [where response = \<open>str ''[7, {"question": "Q"}]''\<close>
      and pdf_text = "str ''text''" and subj = "str ''Biology''" and diff = "str ''Easy''" and n = 5]
  have p: "parse_quiz_response ?r = Inr (PList [PInt 7, PDict ?d])"
    using inst a by blast
  from inst have g: "fst (generate_questions llm (str ''text'') (str ''Biology'') (str ''Easy'') 5) =
      parse_quiz_response ?r"
    if "llm (generate_quiz_prompt (str ''text'') (str ''Biology'') (str ''Easy'') 5) = Inr ?r"
    for llm :: llm
    using that by blast
  have "fst (generate_questions (\<lambda>p. Inr ?r) (str ''text'') (str ''Biology'') (str ''Easy'') 5) =
      parse_quiz_response ?r"
    by (rule g) simp
  with p have 1: "fst (generate_questions (\<lambda>p. Inr ?r) (str ''text'') (str ''Biology'') (str ''Easy'') 5) =
      Inr (PList [PInt 7, PDict ?d])"
    by simp
  have \<open>parse_quiz_response (str ''{"quiz": 1}'') =
      Inr (member_or [(str ''quiz'', PInt 1)] (str ''questions'') (PDict [(str ''quiz'', PInt 1)]))\<close>
    using parse_quiz_response_unvalidated [where response = \<open>str ''{"quiz": 1}''\<close>] b by blast
  then have 2: \<open>parse_quiz_response (str ''{"quiz": 1}'') = Inr (PDict [(str ''quiz'', PInt 1)])\<close>
    by (simp add: member_or_def str_def)
  have "question_kwargs (PDict ?d) =
        Inr \<lparr>f_question_text = member_or ?d (str ''question'') (PStr []),
             f_option_a = member_or [] (str ''A'') (PStr []),
             f_option_b = member_or [] (str ''B'') (PStr []),
             f_option_c = member_or [] (str ''C'') (PStr []),
             f_option_d = member_or [] (str ''D'') (PStr []),
             f_correct_answer = member_or ?d (str ''correct_answer'') (PStr (str ''A'')),
             f_explanation = member_or ?d (str ''explanation'') (PStr [])\<rparr>"
    using inst c by blast
  then have 3: "question_kwargs (PDict ?d) =
     Inr \<lparr>f_question_text = PStr (str ''Q''), f_option_a = PStr [], f_option_b = PStr [],
          f_option_c = PStr [], f_option_d = PStr [], f_correct_answer = PStr (str ''A''),
          f_explanation = PStr []\<rparr>"
    by (simp add: member_or_def str_def)
  from 1 2 3 show ?thesis by blast
qed

text \<open>
  C10, as stated, fails in the branch that decodes the whole response: the text \<^verbatim>\<open>7\<close>
  decodes, to the number 7, and no value is returned for it (\<^verbatim>\<open>data.get\<close> raises
  \<^verbatim>\<open>AttributeError\<close>); the text \<^verbatim>\<open>{"questions": 5}\<close> decodes to an object, and what is
  returned is its member 5, not the decoded object.
\<close>

theorem parse_quiz_response_not_the_decoded_value:
  \<open>re_search (ord CHR ''['') (ord CHR '']'') (str ''7'') = None \<and>
   json_loads (str ''7'') = Some (PInt 7) \<and>
   parse_quiz_response (str ''7'') = Inl AttributeError \<and>
   re_search (ord CHR ''['') (ord CHR '']'') (str ''{"questions": 5}'') = None \<and>
   json_loads (str ''{"questions": 5}'') = Some (PDict [(str ''questions'', PInt 5)]) \<and>
   parse_quiz_response (str ''{"questions": 5}'') = Inr (PInt 5)\<close>
  by code_simp

lemma api_key_guard_configured:
  "api_key_guard cfg =
     (case configured_credential cfg of
        None \<Rightarrow> Inl not_configured
      | Some k \<Rightarrow> if k = placeholder_key then Inl not_configured else Inr k)"
  by (auto simp: api_key_guard_def py_or_def configured_credential_def Let_def
      split: option.splits)

lemma py_get_not_APIKeyError: "py_get a k d \<noteq> Inl (APIKeyError m)"
  by (cases a) (auto split: option.splits)

lemma parse_quiz_response_not_APIKeyError: "parse_quiz_response r \<noteq> Inl (APIKeyError m)"
  using py_get_not_APIKeyError
  by (auto simp: parse_quiz_response_def parse_failure_def split: option.splits)

text \<open>
  C6. When no credential is configured, or the configured one is the placeholder, the
  generation and the feedback operation both fail with \<^verbatim>\<open>APIKeyError\<close> and have sent no
  prompt to the model. Otherwise each sends exactly its one prompt, and whatever its
  result is, it is not an \<^verbatim>\<open>APIKeyError\<close>.
\<close>

theorem credential_guard:
  "(configured_credential cfg = None \<or> configured_credential cfg = Some placeholder_key \<longrightarrow>
      generate_quiz_questions cfg llm pdf_text subj diff num_questions = (Inl not_configured, []) \<and>
      generate_performance_feedback cfg llm subj tq cc wc answers diff =
        (Inl not_configured, [])) \<and>
   (\<forall>k. configured_credential cfg = Some k \<and> k \<noteq> placeholder_key \<longrightarrow>
      (\<exists>r. generate_quiz_questions cfg llm pdf_text subj diff num_questions =
              (r, [generate_quiz_prompt pdf_text subj diff num_questions]) \<and>
            (\<forall>m. r \<noteq> Inl (APIKeyError m))) \<and>
      (\<exists>r. generate_performance_feedback cfg llm subj tq cc wc answers diff =
              (r, [generate_feedback_prompt subj tq cc wc answers diff]) \<and>
            (\<forall>m. r \<noteq> Inl (APIKeyError m))))"
proof (intro conjI allI impI)
  assume "configured_credential cfg = None \<or> configured_credential cfg = Some placeholder_key"
  then have g: "api_key_guard cfg = Inl not_configured"
    by (auto simp: api_key_guard_configured)
  show "generate_quiz_questions cfg llm pdf_text subj diff num_questions = (Inl not_configured, [])"
    by (simp add: generate_quiz_questions_def g)
  show "generate_performance_feedback cfg llm subj tq cc wc answers diff =
        (Inl not_configured, [])"
    by (simp add: generate_performance_feedback_def g)
next
  fix k
  assume "configured_credential cfg = Some k \<and> k \<noteq> placeholder_key"
  then have g: "api_key_guard cfg = Inr k"
    by (simp add: api_key_guard_configured)
  show "\<exists>r. generate_quiz_questions cfg llm pdf_text subj diff num_questions =
              (r, [generate_quiz_prompt pdf_text subj diff num_questions]) \<and>
            (\<forall>m. r \<noteq> Inl (APIKeyError m))"
    using parse_quiz_response_not_APIKeyError
    by (auto simp: generate_quiz_questions_def g generate_questions_def Let_def split: sum.splits)
  show "\<exists>r. generate_performance_feedback cfg llm subj tq cc wc answers diff =
              (r, [generate_feedback_prompt subj tq cc wc answers diff]) \<and>
            (\<forall>m. r \<noteq> Inl (APIKeyError m))"
    using parse_feedback_response_not_Inl
    by (auto simp: generate_performance_feedback_def g generate_feedback_def Let_def split: sum.splits)
qed

theorem credential_guard_witness:
  "generate_quiz_questions
     \<lparr>GOOGLE_API_KEY = None, GEMINI_API_KEY = Some [], environ_GOOGLE_API_KEY = None\<rparr>
     (\<lambda>p. Inr (str ''[]'')) (str ''text'') (str ''Biology'') (str ''Easy'') 1 = (Inl not_configured, []) \<and>
   generate_performance_feedback
     \<lparr>GOOGLE_API_KEY = None, GEMINI_API_KEY = Some placeholder_key,
      environ_GOOGLE_API_KEY = Some (str ''secret'')\<rparr>
     (\<lambda>p. Inr (str ''{}'')) (str ''Biology'') 1 1 0 [] (str ''Easy'') = (Inl not_configured, []) \<and>
   snd (generate_quiz_questions
     \<lparr>GOOGLE_API_KEY = None, GEMINI_API_KEY = None, environ_GOOGLE_API_KEY = Some (str ''secret'')\<rparr>
     (\<lambda>p. Inr (str ''[]'')) (str ''text'') (str ''Biology'') (str ''Easy'') 1) =
     [QuizPrompt (str ''Biology'') (str ''text'') (str ''Easy'') 1]"
proof -
  have a: "configured_credential
      \<lparr>GOOGLE_API_KEY = None, GEMINI_API_KEY = Some [], environ_GOOGLE_API_KEY = None\<rparr> = None"
    by (simp add: configured_credential_def)
  have b: "configured_credential
      \<lparr>GOOGLE_API_KEY = None, GEMINI_API_KEY = Some placeholder_key,
       environ_GOOGLE_API_KEY = Some (str ''secret'')\<rparr> = Some placeholder_key"
    by (simp add: configured_credential_def placeholder_key_def str_def)
  have c: "configured_credential
      \<lparr>GOOGLE_API_KEY = None, GEMINI_API_KEY = None, environ_GOOGLE_API_KEY = Some (str ''secret'')\<rparr> =
        Some (str ''secret'') \<and> str ''secret'' \<noteq> placeholder_key"
    by (simp add: configured_credential_def placeholder_key_def str_def)
  have d: "generate_quiz_prompt (str ''text'') (str ''Biology'') (str ''Easy'') 1 =
      QuizPrompt (str ''Biology'') (str ''text'') (str ''Easy'') 1"
    by (simp add: generate_quiz_prompt_def str_def)
  have 1: "generate_quiz_questions
     \<lparr>GOOGLE_API_KEY = None, GEMINI_API_KEY = Some [], environ_GOOGLE_API_KEY = None\<rparr>
     (\<lambda>p. Inr (str ''[]'')) (str ''text'') (str ''Biology'') (str ''Easy'') 1 = (Inl not_configured, [])"
    using credential_guard [where cfg = "\<lparr>GOOGLE_API_KEY = None, GEMINI_API_KEY = Some [], environ_GOOGLE_API_KEY = None\<rparr>"
        and llm = "\<lambda>p. Inr (str ''[]'')" and pdf_text = "str ''text''" and subj = "str ''Biology''"
        and diff = "str ''Easy''" and num_questions = 1 and tq = 1 and cc = 1 and wc = 0
        and answers = "[]"] a
    by blast
  have 2: "generate_performance_feedback
     \<lparr>GOOGLE_API_KEY = None, GEMINI_API_KEY = Some placeholder_key,
      environ_GOOGLE_API_KEY = Some (str ''secret'')\<rparr>
     (\<lambda>p. Inr (str ''{}'')) (str ''Biology'') 1 1 0 [] (str ''Easy'') = (Inl not_configured, [])"
    using credential_guard [where cfg = "\<lparr>GOOGLE_API_KEY = None, GEMINI_API_KEY = Some placeholder_key,
         environ_GOOGLE_API_KEY = Some (str ''secret'')\<rparr>"
        and llm = "\<lambda>p. Inr (str ''{}'')" and pdf_text = "str ''text''" and subj = "str ''Biology''"
        and diff = "str ''Easy''" and num_questions = 1 and tq = 1 and cc = 1 and wc = 0
        and answers = "[]"] b
    by blast
  have "\<exists>r. generate_quiz_questions
     \<lparr>GOOGLE_API_KEY = None, GEMINI_API_KEY = None, environ_GOOGLE_API_KEY = Some (str ''secret'')\<rparr>
     (\<lambda>p. Inr (str ''[]'')) (str ''text'') (str ''Biology'') (str ''Easy'') 1 =
       (r, [generate_quiz_prompt (str ''text'') (str ''Biology'') (str ''Easy'') 1])"
    using credential_guard [where cfg = "\<lparr>GOOGLE_API_KEY = None, GEMINI_API_KEY = None,
         environ_GOOGLE_API_KEY = Some (str ''secret'')\<rparr>"
        and llm = "\<lambda>p. Inr (str ''[]'')" and pdf_text = "str ''text''" and subj = "str ''Biology''"
        and diff = "str ''Easy''" and num_questions = 1 and tq = 1 and cc = 1 and wc = 0
        and answers = "[]"] c
    by blast
  then have 3: "snd (generate_quiz_questions
     \<lparr>GOOGLE_API_KEY = None, GEMINI_API_KEY = None, environ_GOOGLE_API_KEY = Some (str ''secret'')\<rparr>
     (\<lambda>p. Inr (str ''[]'')) (str ''text'') (str ''Biology'') (str ''Easy'') 1) =
     [QuizPrompt (str ''Biology'') (str ''text'') (str ''Easy'') 1]"
    using d by auto
  from 1 2 3 show ?thesis by blast
qed

lemma py_round2_hundredth: "\<exists>k::int. py_round2 x = of_int k / 100"
  unfolding py_round2_def Let_def by (auto simp del: of_int_add)

lemma py_round2_near: "\<bar>py_round2 x - x\<bar> \<le> 1 / 200"
proof -
  define y where "y = x * 100"
  define f where "f = \<lfloor>y\<rfloor>"
  have f: "of_int f \<le> y" "y < of_int f + 1"
    unfolding f_def by linarith+
  have "\<bar>py_round2 x * 100 - y\<bar> \<le> 1 / 2"
    using f unfolding py_round2_def Let_def y_def [symmetric] f_def [symmetric]
    by auto
  then show ?thesis unfolding y_def by linarith
qed

lemma percentage_formula:
  "percentage scr (int n) = Inr (if n = 0 then 0 else 100 * of_int scr / of_int (int n))"
  by (simp add: percentage_def py_truediv_def bind_exn_def)

lemma percentage_examples:
  "bind_exn (percentage 0 0) (\<lambda>p. Inr (py_round2 p)) = Inr 0"
  "bind_exn (percentage 3 4) (\<lambda>p. Inr (py_round2 p)) = Inr 75"
  "bind_exn (percentage 1 3) (\<lambda>p. Inr (py_round2 p)) = Inr (3333 / 100)"
  by code_simp+

section \<open>Properties of the grading loop\<close>

lemma filter_key_le1:
  assumes "distinct (map key xs)"
  shows "length (filter (\<lambda>a. key a = k) xs) \<le> 1"
  using assms by (induction xs) (auto simp: filter_empty_conv image_iff)

lemma filter_key_single:
  assumes "distinct (map key xs)" and "obj \<in> set xs"
  shows "filter (\<lambda>a. key a = key obj) xs = [obj]"
  using assms
proof (induction xs)
  case Nil
  then show ?case by simp
next
  case (Cons x xs)
  show ?case
  proof (cases "x = obj")
    case True
    with Cons.prems have "\<forall>a \<in> set xs. key a \<noteq> key obj" by (auto simp: image_iff)
    then have "filter (\<lambda>a. key a = key obj) xs = []" by (simp add: filter_empty_conv)
    with True show ?thesis by simp
  next
    case False
    with Cons.prems have "obj \<in> set xs" "key x \<noteq> key obj" "distinct (map key xs)"
      by (auto simp: image_iff)
    with Cons.IH show ?thesis by simp
  qed
qed

lemma update_or_create_ok:
  assumes ok: "answers_ok db"
    and q: "q \<in> set (db_questions db)" "question_quiz q = quiz"
  shows "\<exists>db' a. update_or_create usr quiz (question_id q) s c db = (Inr (), db') \<and>
           answers_ok db' \<and>
           db_questions db' = db_questions db \<and> db_quizzes db' = db_quizzes db \<and>
           db_results db' = db_results db \<and> db_documents db' = db_documents db \<and>
           answers_for db' usr (question_id q) = [a] \<and>
           answer_selected a = s \<and> answer_is_correct a = c \<and>
           (\<forall>u k. (u, k) \<noteq> (usr, question_id q) \<longrightarrow> answers_for db' u k = answers_for db u k)"
proof -
  let ?xs = "db_answers db"
  let ?key = "\<lambda>a. (answer_user a, answer_question a)"
  let ?k = "(usr, question_id q)"
  from ok have uniq: "distinct (map ?key ?xs)" and ids: "distinct (map answer_id ?xs)"
    and below: "\<forall>a \<in> set ?xs. answer_id a < next_answer_id db"
    and qids: "distinct (map question_id (db_questions db))"
    and cons: "\<forall>a \<in> set ?xs. \<forall>q \<in> set (db_questions db).
        answer_question a = question_id q \<longrightarrow> answer_quiz a = question_quiz q"
    by (auto simp: answers_ok_def unique_answers_def)
  let ?P = "\<lambda>a. answer_user a = usr \<and> answer_question a = question_id q"
  have same: "filter (\<lambda>a. answer_user a = usr \<and> answer_quiz a = quiz \<and> answer_question a = question_id q) ?xs =
      filter ?P ?xs"
    using cons q by (intro filter_cong) auto
  have le1: "length (filter ?P ?xs) \<le> 1"
    using filter_key_le1 [OF uniq, of ?k] by simp
  show ?thesis
  proof (cases "filter ?P ?xs")
    case Nil
    then have none: "\<forall>a \<in> set ?xs. \<not> ?P a" by (simp add: filter_empty_conv)
    define new where "new = \<lparr>answer_id = next_answer_id db, answer_user = usr, answer_quiz = quiz,
        answer_question = question_id q, answer_selected = s, answer_is_correct = c\<rparr>"
    define db' where "db' = db\<lparr>db_answers := ?xs @ [new], next_answer_id := Suc (next_answer_id db)\<rparr>"
    have run: "update_or_create usr quiz (question_id q) s c db = (Inr (), db')"
      using none Nil unfolding update_or_create_def same db'_def new_def by auto
    have newq: "question_quiz q' = quiz" if "q' \<in> set (db_questions db)" "question_id q' = question_id q" for q'
    proof -
      from qids have "inj_on question_id (set (db_questions db))" by (simp add: distinct_map)
      with that q have "q' = q" by (auto dest: inj_onD)
      with q show ?thesis by simp
    qed
    have ok': "answers_ok db'"
      unfolding answers_ok_def unique_answers_def db'_def
      using uniq ids below qids cons none newq
      by (auto simp: new_def less_Suc_eq image_iff)
    have k: "answers_for db' usr (question_id q) = [new]"
      using Nil by (simp add: answers_for_def db'_def new_def)
    have other: "answers_for db' u k' = answers_for db u k'" if "(u, k') \<noteq> ?k" for u k'
      using that by (auto simp: answers_for_def db'_def new_def)
    have tabs: "db_questions db' = db_questions db" "db_quizzes db' = db_quizzes db"
      "db_results db' = db_results db" "db_documents db' = db_documents db"
      by (simp_all add: db'_def)
    have new: "answer_selected new = s" "answer_is_correct new = c" by (simp_all add: new_def)
    from run ok' k other tabs new show ?thesis by blast
  next
    case (Cons obj rest)
    with le1 have one: "filter ?P ?xs = [obj]" by simp
    then have "obj \<in> set (filter ?P ?xs)" by simp
    then have obj: "obj \<in> set ?xs" "?P obj" by simp_all
    define f :: "UserAnswer \<Rightarrow> UserAnswer" where "f = (\<lambda>a. if answer_id a = answer_id obj
        then a\<lparr>answer_selected := s, answer_is_correct := c\<rparr> else a)"
    define db' where "db' = db\<lparr>db_answers := map f ?xs\<rparr>"
    have run: "update_or_create usr quiz (question_id q) s c db = (Inr (), db')"
      unfolding update_or_create_def same one db'_def f_def by simp
    have fkey: "answer_user (f a) = answer_user a" "answer_id (f a) = answer_id a"
      "answer_quiz (f a) = answer_quiz a" "answer_question (f a) = answer_question a" for a
      by (simp_all add: f_def)
    have keys: "map (?key \<circ> f) ?xs = map ?key ?xs" "map (answer_id \<circ> f) ?xs = map answer_id ?xs"
      by (simp_all add: fkey comp_def)
    have ok': "answers_ok db'"
      unfolding answers_ok_def unique_answers_def db'_def
      using uniq ids below qids cons
      by (auto simp: fkey comp_def)
    have filt: "filter (\<lambda>a. answer_user a = u \<and> answer_question a = kk) (map f ?xs) =
        map f (filter (\<lambda>a. answer_user a = u \<and> answer_question a = kk) ?xs)" for u kk
      by (simp add: filter_map comp_def fkey)
    have k: "answers_for db' usr (question_id q) = [f obj]"
      by (simp add: answers_for_def db'_def filt one)
    have fobj: "answer_selected (f obj) = s" "answer_is_correct (f obj) = c"
      by (simp_all add: f_def)
    have other: "answers_for db' u k' = answers_for db u k'" if "(u, k') \<noteq> ?k" for u k'
    proof -
      have "f a = a" if "a \<in> set (filter (\<lambda>a. answer_user a = u \<and> answer_question a = k') ?xs)" for a
      proof -
        from that \<open>(u, k') \<noteq> ?k\<close> obj have "a \<in> set ?xs" "a \<noteq> obj" by auto
        with ids obj(1) have "answer_id a \<noteq> answer_id obj"
          by (auto simp: distinct_map dest: inj_onD)
        then show ?thesis by (simp add: f_def)
      qed
      then have "map f (filter (\<lambda>a. answer_user a = u \<and> answer_question a = k') ?xs) =
          filter (\<lambda>a. answer_user a = u \<and> answer_question a = k') ?xs"
        by (intro map_idI) simp
      then show ?thesis by (simp add: answers_for_def db'_def filt)
    qed
    have tabs: "db_questions db' = db_questions db" "db_quizzes db' = db_quizzes db"
      "db_results db' = db_results db" "db_documents db' = db_documents db"
      by (simp_all add: db'_def)
    from run ok' k fobj other tabs show ?thesis by blast
  qed
qed


lemma selected_of_simps:
  "POST (answer_key q) = None \<Longrightarrow> selected_of POST q = None"
  "POST (answer_key q) = Some [] \<Longrightarrow> selected_of POST q = None"
  "POST (answer_key q) = Some s \<Longrightarrow> s \<noteq> [] \<Longrightarrow> selected_of POST q = Some s"
  by (simp_all add: selected_of_def)

lemma grade_questions_unanswered:
  "selected_of POST q = None \<Longrightarrow>
     grade_questions usr quiz POST (q # qs) g db = grade_questions usr quiz POST qs g db"
  by (auto simp: selected_of_def split: option.splits if_splits)

lemma grade_questions_answered:
  "selected_of POST q = Some s \<Longrightarrow>
     grade_questions usr quiz POST (q # qs) g db =
       (case update_or_create usr quiz (question_id q) s (PStr s = correct_answer q) db of
          (Inl e, db1) \<Rightarrow> (Inl e, db1)
        | (Inr u, db1) \<Rightarrow>
            grade_questions usr quiz POST qs
              (g\<lparr>score := score g + (if PStr s = correct_answer q then 1 else 0),
                 correct_count := correct_count g + (if PStr s = correct_answer q then 1 else 0),
                 wrong_count := wrong_count g + (if PStr s = correct_answer q then 0 else 1),
                 user_answers := user_answers g @ [summary_of POST q]\<rparr>) db1)"
  by (auto simp: selected_of_def summary_of_def answered_right_def Let_def
      split: option.splits if_splits prod.splits sum.splits)

lemma grade_questions_skip:
  "grade_questions usr quiz POST qs g db =
     grade_questions usr quiz POST (filter (answered POST) qs) g db"
proof (induction qs arbitrary: g db)
  case Nil
  show ?case by simp
next
  case (Cons q qs)
  show ?case
  proof (cases "selected_of POST q")
    case None
    then show ?thesis
      using Cons.IH by (simp add: grade_questions_unanswered answered_def del: grade_questions.simps)
  next
    case (Some s)
    then have "answered POST q" by (simp add: answered_def)
    then have "grade_questions usr quiz POST (filter (answered POST) (q # qs)) g db =
        grade_questions usr quiz POST (q # filter (answered POST) qs) g db"
      by simp
    also have "\<dots> = grade_questions usr quiz POST (q # qs) g db"
      unfolding grade_questions_answered [OF Some]
      by (auto split: prod.splits sum.splits simp: Cons.IH [symmetric])
    finally show ?thesis by simp
  qed
qed

lemma grade_questions_counts:
  assumes "grade_questions usr quiz POST qs g db = (Inr g', db')"
  shows "score g' = score g + int (length (filter (answered_right POST) qs)) \<and>
         correct_count g' = correct_count g + int (length (filter (answered_right POST) qs)) \<and>
         wrong_count g' = wrong_count g + int (length (filter (answered_wrong POST) qs)) \<and>
         user_answers g' = user_answers g @ map (summary_of POST) (filter (answered POST) qs)"
  using assms
proof (induction qs arbitrary: g db)
  case Nil
  then show ?case by simp
next
  case (Cons q qs)
  show ?case
  proof (cases "selected_of POST q")
    case None
    with Cons.prems have "grade_questions usr quiz POST qs g db = (Inr g', db')"
      by (simp add: grade_questions_unanswered del: grade_questions.simps)
    from Cons.IH [OF this] None show ?thesis
      by (simp add: answered_def answered_right_def answered_wrong_def)
  next
    case (Some s)
    let ?g = "g\<lparr>score := score g + (if PStr s = correct_answer q then 1 else 0),
                 correct_count := correct_count g + (if PStr s = correct_answer q then 1 else 0),
                 wrong_count := wrong_count g + (if PStr s = correct_answer q then 0 else 1),
                 user_answers := user_answers g @ [summary_of POST q]\<rparr>"
    from Cons.prems obtain db1 where "grade_questions usr quiz POST qs ?g db1 = (Inr g', db')"
      unfolding grade_questions_answered [OF Some]
      by (auto split: prod.splits sum.splits)
    from Cons.IH [OF this] Some show ?thesis
      by (simp add: answered_def answered_right_def answered_wrong_def)
  qed
qed

lemma answered_right_or_wrong:
  "length (filter (answered_right POST) qs) + length (filter (answered_wrong POST) qs) =
     length (filter (answered POST) qs)"
  by (induction qs)
     (auto simp: answered_def answered_right_def answered_wrong_def split: option.splits)

lemma grade_questions_ok:
  assumes "answers_ok db"
    and "\<forall>q \<in> set qs. q \<in> set (db_questions db) \<and> question_quiz q = quiz"
  shows "\<exists>g' db'. grade_questions usr quiz POST qs g db = (Inr g', db') \<and> answers_ok db' \<and>
           db_questions db' = db_questions db \<and> db_quizzes db' = db_quizzes db \<and>
           db_results db' = db_results db \<and> db_documents db' = db_documents db \<and>
           (\<forall>u k. (u, k) \<notin> (\<lambda>q. (usr, question_id q)) ` set (filter (answered POST) qs) \<longrightarrow>
              answers_for db' u k = answers_for db u k)"
  using assms
proof (induction qs arbitrary: g db)
  case Nil
  then show ?case by simp
next
  case (Cons q qs)
  show ?case
  proof (cases "selected_of POST q")
    case None
    then have "\<not> answered POST q" by (simp add: answered_def)
    with Cons.IH [of db g] Cons.prems None show ?thesis
      by (simp add: grade_questions_unanswered del: grade_questions.simps)
  next
    case (Some s)
    then have ans: "answered POST q" by (simp add: answered_def)
    let ?g = "g\<lparr>score := score g + (if PStr s = correct_answer q then 1 else 0),
                 correct_count := correct_count g + (if PStr s = correct_answer q then 1 else 0),
                 wrong_count := wrong_count g + (if PStr s = correct_answer q then 0 else 1),
                 user_answers := user_answers g @ [summary_of POST q]\<rparr>"
    from Cons.prems have q: "q \<in> set (db_questions db)" "question_quiz q = quiz" by simp_all
    from update_or_create_ok [OF Cons.prems(1) q, of usr s "PStr s = correct_answer q"]
    obtain db1 where up: "update_or_create usr quiz (question_id q) s (PStr s = correct_answer q) db = (Inr (), db1)"
      and ok1: "answers_ok db1"
      and tabs1: "db_questions db1 = db_questions db" "db_quizzes db1 = db_quizzes db"
        "db_results db1 = db_results db" "db_documents db1 = db_documents db"
      and other1: "\<forall>u k. (u, k) \<noteq> (usr, question_id q) \<longrightarrow> answers_for db1 u k = answers_for db u k"
      by blast
    from Cons.prems tabs1 have "\<forall>q \<in> set qs. q \<in> set (db_questions db1) \<and> question_quiz q = quiz"
      by simp
    from Cons.IH [OF ok1 this, of ?g]
    obtain g' db' where run: "grade_questions usr quiz POST qs ?g db1 = (Inr g', db')"
      and ok': "answers_ok db'"
      and tabs': "db_questions db' = db_questions db1" "db_quizzes db' = db_quizzes db1"
        "db_results db' = db_results db1" "db_documents db' = db_documents db1"
      and other': "\<forall>u k. (u, k) \<notin> (\<lambda>q. (usr, question_id q)) ` set (filter (answered POST) qs) \<longrightarrow>
              answers_for db' u k = answers_for db1 u k"
      by blast
    have "grade_questions usr quiz POST (q # qs) g db = (Inr g', db')"
      unfolding grade_questions_answered [OF Some] up using run by simp
    moreover have "\<forall>u k. (u, k) \<notin> (\<lambda>q. (usr, question_id q)) ` set (filter (answered POST) (q # qs)) \<longrightarrow>
              answers_for db' u k = answers_for db u k"
      using other1 other' ans by auto
    ultimately show ?thesis using ok' tabs1 tabs' by auto
  qed
qed

lemma grade_questions_sets:
  assumes "answers_ok db"
    and "\<forall>q \<in> set qs. q \<in> set (db_questions db) \<and> question_quiz q = quiz"
    and "distinct (map question_id qs)"
    and "grade_questions usr quiz POST qs g db = (Inr g', db')"
    and "q \<in> set qs" and "selected_of POST q = Some s"
  shows "\<exists>a. answers_for db' usr (question_id q) = [a] \<and> answer_selected a = s \<and>
           answer_is_correct a = (PStr s = correct_answer q)"
  using assms
proof (induction qs arbitrary: g db)
  case Nil
  then show ?case by simp
next
  case (Cons x qs)
  from Cons.prems have x: "x \<in> set (db_questions db)" "question_quiz x = quiz"
    and rest: "\<forall>q \<in> set qs. q \<in> set (db_questions db) \<and> question_quiz q = quiz"
    and dist: "distinct (map question_id qs)" "question_id x \<notin> question_id ` set qs"
    by simp_all
  show ?case
  proof (cases "selected_of POST x")
    case None
    with Cons.prems have "q \<in> set qs" by auto
    moreover from Cons.prems None have "grade_questions usr quiz POST qs g db = (Inr g', db')"
      by (simp add: grade_questions_unanswered del: grade_questions.simps)
    ultimately show ?thesis
      using Cons.IH [OF Cons.prems(1) rest dist(1)] Cons.prems(6) by blast
  next
    case (Some t)
    let ?g = "g\<lparr>score := score g + (if PStr t = correct_answer x then 1 else 0),
                 correct_count := correct_count g + (if PStr t = correct_answer x then 1 else 0),
                 wrong_count := wrong_count g + (if PStr t = correct_answer x then 0 else 1),
                 user_answers := user_answers g @ [summary_of POST x]\<rparr>"
    from update_or_create_ok [OF Cons.prems(1) x, of usr t "PStr t = correct_answer x"]
    obtain db1 a where up: "update_or_create usr quiz (question_id x) t (PStr t = correct_answer x) db = (Inr (), db1)"
      and ok1: "answers_ok db1"
      and tabs1: "db_questions db1 = db_questions db"
      and row: "answers_for db1 usr (question_id x) = [a]" "answer_selected a = t"
        "answer_is_correct a = (PStr t = correct_answer x)"
      by blast
    from Cons.prems(4) up have run: "grade_questions usr quiz POST qs ?g db1 = (Inr g', db')"
      unfolding grade_questions_answered [OF Some] by simp
    from rest tabs1 have rest1: "\<forall>q \<in> set qs. q \<in> set (db_questions db1) \<and> question_quiz q = quiz"
      by simp
    show ?thesis
    proof (cases "q = x")
      case True
      from grade_questions_ok [OF ok1 rest1, of usr POST ?g] run
      have "\<forall>u k. (u, k) \<notin> (\<lambda>q. (usr, question_id q)) ` set (filter (answered POST) qs) \<longrightarrow>
              answers_for db' u k = answers_for db1 u k"
        by auto
      moreover from dist(2) have "(usr, question_id x) \<notin> (\<lambda>q. (usr, question_id q)) ` set (filter (answered POST) qs)"
        by auto
      ultimately have "answers_for db' usr (question_id x) = answers_for db1 usr (question_id x)"
        by blast
      with row True Some Cons.prems(6) show ?thesis by auto
    next
      case False
      with Cons.prems have "q \<in> set qs" by auto
      with Cons.IH [OF ok1 rest1 dist(1) run] Cons.prems(6) show ?thesis by blast
    qed
  qed
qed

lemma quiz_questions_set:
  "set (quiz_questions db quiz) = {q \<in> set (db_questions db). question_quiz q = quiz}"
  by (auto simp: quiz_questions_def)

lemma quiz_questions_distinct:
  "distinct (map question_id (db_questions db)) \<Longrightarrow> distinct (map question_id (quiz_questions db quiz))"
  by (auto simp: quiz_questions_def distinct_map intro: inj_on_subset)

lemma quiz_questions_sorted: "sorted (map question_order (quiz_questions db quiz))"
  by (simp add: quiz_questions_def)

section \<open>Properties of submitting a quiz\<close>

lemma feedback_dict_get:
  "py_get (feedback_dict sa wa su) (str ''strength_analysis'') d = Inr sa"
  "py_get (feedback_dict sa wa su) (str ''weakness_analysis'') d = Inr wa"
  "py_get (feedback_dict sa wa su) (str ''suggestions'') d = Inr su"
  by (simp_all add: feedback_dict_def str_def)

lemma feedback_or_fallback_dict:
  "\<exists>sa wa su. feedback_or_fallback
      (fst (generate_performance_feedback cfg llm subj tq cc wc answers diff)) = feedback_dict sa wa su"
proof (cases "fst (generate_performance_feedback cfg llm subj tq cc wc answers diff)")
  case (Inl e)
  then show ?thesis
    by (cases e) (auto simp: feedback_or_fallback_def not_configured_feedback_def model_failure_feedback_def)
next
  case (Inr fb)
  then obtain reply where "parse_feedback_response reply = Inr fb"
    by (auto simp: generate_performance_feedback_def generate_feedback_def Let_def
        split: sum.splits)
  with parse_feedback_response_Inr [of reply] have "\<exists>sa wa su. fb = feedback_dict sa wa su"
    by auto
  with Inr show ?thesis by (auto simp: feedback_or_fallback_def)
qed

lemma feedback_not_configured:
  "api_key_guard cfg = Inl e \<Longrightarrow>
     feedback_or_fallback (fst (generate_performance_feedback cfg llm subj tq cc wc answers diff)) =
       not_configured_feedback"
  by (cases "api_key_guard cfg")
     (auto simp: generate_performance_feedback_def feedback_or_fallback_def api_key_guard_def
        not_configured_def Let_def split: option.splits if_splits)

lemma feedback_model_failure:
  "api_key_guard cfg = Inr k \<Longrightarrow>
   llm (generate_feedback_prompt subj tq cc wc answers diff) = Inl cause \<Longrightarrow>
     feedback_or_fallback (fst (generate_performance_feedback cfg llm subj tq cc wc answers diff)) =
       model_failure_feedback"
  by (simp add: generate_performance_feedback_def generate_feedback_def feedback_or_fallback_def Let_def)

lemma feedback_parsed:
  "api_key_guard cfg = Inr k \<Longrightarrow>
   llm (generate_feedback_prompt subj tq cc wc answers diff) = Inr reply \<Longrightarrow>
     Inr (feedback_or_fallback (fst (generate_performance_feedback cfg llm subj tq cc wc answers diff))) =
       parse_feedback_response reply"
  using parse_feedback_response_Inr [of reply]
  by (auto simp: generate_performance_feedback_def generate_feedback_def feedback_or_fallback_def Let_def)

lemma fallbacks_differ:
  assumes "not_configured_feedback = feedback_dict sa wa su"
    and "model_failure_feedback = feedback_dict sa' wa' su'"
  shows "sa \<noteq> sa' \<and> wa \<noteq> wa' \<and> su \<noteq> su'"
  using assms
  by (auto simp: not_configured_feedback_def model_failure_feedback_def feedback_dict_def str_def)

lemma percentage_nonneg:
  "percentage scr (int n) = Inr (if n = 0 then 0 else 100 * of_int scr / of_int (int n))"
  by (rule percentage_formula)

lemma grade_questions_graded:
  assumes "grade_questions usr quiz POST qs
             \<lparr>score = 0, correct_count = 0, wrong_count = 0, user_answers = []\<rparr> db = (Inr g, db1)"
  shows "g = graded POST qs"
  using grade_questions_counts [OF assms] by (simp add: graded_def)

lemma submit_quiz_result:
  assumes "find (\<lambda>q. quiz_id q = quiz \<and> quiz_user q = usr) (db_quizzes db) = Some quiz_row"
    and "grade_questions usr quiz POST (quiz_questions db quiz)
           \<lparr>score = 0, correct_count = 0, wrong_count = 0, user_answers = []\<rparr> db = (Inr g, db1)"
  shows "\<exists>sa wa su.
      feedback_or_fallback
        (fst (generate_performance_feedback cfg llm (quiz_subject quiz_row)
                (int (length (quiz_questions db quiz))) (correct_count g) (wrong_count g)
                (user_answers g) (quiz_difficulty quiz_row))) = feedback_dict sa wa su \<and>
      submit_quiz cfg llm usr quiz True POST db =
        (Inr (Redirect_quiz_result quiz),
         Result_create usr quiz (score g) (int (length (quiz_questions db quiz))) (correct_count g)
           (wrong_count g)
           (py_round2 (if length (quiz_questions db quiz) = 0 then 0
                       else 100 * of_int (score g) / of_int (int (length (quiz_questions db quiz)))))
           sa wa su db1)"
proof -
  from feedback_or_fallback_dict obtain sa wa su where fb: "feedback_or_fallback
        (fst (generate_performance_feedback cfg llm (quiz_subject quiz_row)
                (int (length (quiz_questions db quiz))) (correct_count g) (wrong_count g)
                (user_answers g) (quiz_difficulty quiz_row))) = feedback_dict sa wa su"
    by blast
  have "submit_quiz cfg llm usr quiz True POST db =
        (Inr (Redirect_quiz_result quiz),
         Result_create usr quiz (score g) (int (length (quiz_questions db quiz))) (correct_count g)
           (wrong_count g)
           (py_round2 (if length (quiz_questions db quiz) = 0 then 0
                       else 100 * of_int (score g) / of_int (int (length (quiz_questions db quiz)))))
           sa wa su db1)"
    unfolding submit_quiz_def
    by (simp add: assms Let_def percentage_formula fb feedback_dict_get bind_exn_def
        del: py_get.simps grade_questions.simps)
  with fb show ?thesis by blast
qed

lemma submit_quiz_cases:
  assumes "submit_quiz cfg llm usr quiz post POST db = (out, db')"
  shows "(out = Inr Http404 \<and> db' = db \<and>
            find (\<lambda>q. quiz_id q = quiz \<and> quiz_user q = usr) (db_quizzes db) = None) \<or>
         (out = Inr (Redirect_take_quiz quiz) \<and> db' = db \<and> \<not> post) \<or>
         (\<exists>e. out = Inl e \<and> post \<and>
            grade_questions usr quiz POST (quiz_questions db quiz)
              \<lparr>score = 0, correct_count = 0, wrong_count = 0, user_answers = []\<rparr> db = (Inl e, db')) \<or>
         (\<exists>quiz_row g db1 sa wa su. post \<and> out = Inr (Redirect_quiz_result quiz) \<and>
            find (\<lambda>q. quiz_id q = quiz \<and> quiz_user q = usr) (db_quizzes db) = Some quiz_row \<and>
            grade_questions usr quiz POST (quiz_questions db quiz)
              \<lparr>score = 0, correct_count = 0, wrong_count = 0, user_answers = []\<rparr> db = (Inr g, db1) \<and>
            db' = Result_create usr quiz (score g) (int (length (quiz_questions db quiz))) (correct_count g)
               (wrong_count g)
               (py_round2 (if length (quiz_questions db quiz) = 0 then 0
                       else 100 * of_int (score g) / of_int (int (length (quiz_questions db quiz)))))
               sa wa su db1)"
proof (cases "find (\<lambda>q. quiz_id q = quiz \<and> quiz_user q = usr) (db_quizzes db)")
  case None
  with assms show ?thesis by (auto simp: submit_quiz_def)
next
  case (Some quiz_row)
  show ?thesis
  proof (cases post)
    case False
    with assms Some show ?thesis by (auto simp: submit_quiz_def)
  next
    case True
    obtain r db1 where g: "grade_questions usr quiz POST (quiz_questions db quiz)
              \<lparr>score = 0, correct_count = 0, wrong_count = 0, user_answers = []\<rparr> db = (r, db1)"
      by (cases "grade_questions usr quiz POST (quiz_questions db quiz)
              \<lparr>score = 0, correct_count = 0, wrong_count = 0, user_answers = []\<rparr> db") auto
    show ?thesis
    proof (cases r)
      case (Inl e)
      with assms Some True g show ?thesis
        by (auto simp: submit_quiz_def Let_def simp del: grade_questions.simps)
    next
      case (Inr gr)
      from submit_quiz_result [OF Some g [unfolded Inr], of cfg llm]
      obtain sa wa su where "submit_quiz cfg llm usr quiz True POST db =
        (Inr (Redirect_quiz_result quiz),
         Result_create usr quiz (score gr) (int (length (quiz_questions db quiz))) (correct_count gr)
           (wrong_count gr)
           (py_round2 (if length (quiz_questions db quiz) = 0 then 0
                       else 100 * of_int (score gr) / of_int (int (length (quiz_questions db quiz)))))
           sa wa su db1)"
        by blast
      with assms True have "out = Inr (Redirect_quiz_result quiz)"
        "db' = Result_create usr quiz (score gr) (int (length (quiz_questions db quiz))) (correct_count gr)
           (wrong_count gr)
           (py_round2 (if length (quiz_questions db quiz) = 0 then 0
                       else 100 * of_int (score gr) / of_int (int (length (quiz_questions db quiz)))))
           sa wa su db1"
        by simp_all
      with Some g Inr True show ?thesis by blast
    qed
  qed
qed

lemma Result_create_answers_ok:
  "answers_ok db \<Longrightarrow> answers_ok (Result_create usr quiz sc tq cc wc pct sa wa su db)"
  by (simp add: answers_ok_def unique_answers_def Result_create_def)

lemma Result_create_tables:
  "db_answers (Result_create usr quiz sc tq cc wc pct sa wa su db) = db_answers db"
  "db_questions (Result_create usr quiz sc tq cc wc pct sa wa su db) = db_questions db"
  "db_quizzes (Result_create usr quiz sc tq cc wc pct sa wa su db) = db_quizzes db"
  "db_documents (Result_create usr quiz sc tq cc wc pct sa wa su db) = db_documents db"
  "db_results (Result_create usr quiz sc tq cc wc pct sa wa su db) =
     db_results db @
       [\<lparr>result_id = next_result_id db, result_user = usr, result_quiz = quiz,
         result_score = sc, result_total_questions = tq,
         result_correct_answers = cc, result_wrong_answers = wc,
         result_percentage = pct, result_strength_analysis = sa,
         result_weakness_analysis = wa, result_suggestions = su\<rparr>]"
  by (simp_all add: Result_create_def)

lemma answers_for_Result_create:
  "answers_for (Result_create usr quiz sc tq cc wc pct sa wa su db) u k = answers_for db u k"
  by (simp add: answers_for_def Result_create_tables)

lemma quiz_questions_in:
  "\<forall>q \<in> set (quiz_questions db quiz). q \<in> set (db_questions db) \<and> question_quiz q = quiz"
  by (simp add: quiz_questions_set)

lemma submit_quiz_preserves:
  assumes "answers_ok db" and "submit_quiz cfg llm usr quiz post POST db = (out, db')"
  shows "answers_ok db' \<and> db_questions db' = db_questions db \<and> db_quizzes db' = db_quizzes db"
proof -
  from grade_questions_ok [OF assms(1) quiz_questions_in, where usr = usr and POST = POST
      and g = "\<lparr>score = 0, correct_count = 0, wrong_count = 0, user_answers = []\<rparr>"]
  obtain g0 d0 where g: "grade_questions usr quiz POST (quiz_questions db quiz)
              \<lparr>score = 0, correct_count = 0, wrong_count = 0, user_answers = []\<rparr> db = (Inr g0, d0)"
    and ok: "answers_ok d0" and tabs: "db_questions d0 = db_questions db" "db_quizzes d0 = db_quizzes db"
    by blast
  from submit_quiz_cases [OF assms(2)] show ?thesis
    using assms(1) g ok tabs
    by (auto simp: Result_create_answers_ok Result_create_tables)
qed

lemma submit_quiz_post:
  assumes "answers_ok db"
    and "find (\<lambda>q. quiz_id q = quiz \<and> quiz_user q = usr) (db_quizzes db) = Some quiz_row"
  shows "\<exists>db1 sa wa su.
      grade_questions usr quiz POST (quiz_questions db quiz)
        \<lparr>score = 0, correct_count = 0, wrong_count = 0, user_answers = []\<rparr> db =
        (Inr (graded POST (quiz_questions db quiz)), db1) \<and>
      answers_ok db1 \<and> db_results db1 = db_results db \<and>
      feedback_or_fallback
        (fst (generate_performance_feedback cfg llm (quiz_subject quiz_row)
                (int (length (quiz_questions db quiz)))
                (correct_count (graded POST (quiz_questions db quiz)))
                (wrong_count (graded POST (quiz_questions db quiz)))
                (user_answers (graded POST (quiz_questions db quiz)))
                (quiz_difficulty quiz_row))) = feedback_dict sa wa su \<and>
      submit_quiz cfg llm usr quiz True POST db =
        (Inr (Redirect_quiz_result quiz),
         Result_create usr quiz (score (graded POST (quiz_questions db quiz)))
           (int (length (quiz_questions db quiz)))
           (correct_count (graded POST (quiz_questions db quiz)))
           (wrong_count (graded POST (quiz_questions db quiz)))
           (py_round2 (if length (quiz_questions db quiz) = 0 then 0
                       else 100 * of_int (score (graded POST (quiz_questions db quiz))) /
                            of_int (int (length (quiz_questions db quiz)))))
           sa wa su db1)"
proof -
  from grade_questions_ok [OF assms(1) quiz_questions_in, where usr = usr and POST = POST
      and g = "\<lparr>score = 0, correct_count = 0, wrong_count = 0, user_answers = []\<rparr>"]
  obtain g0 d0 where g: "grade_questions usr quiz POST (quiz_questions db quiz)
              \<lparr>score = 0, correct_count = 0, wrong_count = 0, user_answers = []\<rparr> db = (Inr g0, d0)"
    and ok: "answers_ok d0" and tabs: "db_results d0 = db_results db"
    by blast
  from grade_questions_graded [OF g] have g0: "g0 = graded POST (quiz_questions db quiz)" .
  from submit_quiz_result [OF assms(2) g, of cfg llm] g ok tabs show ?thesis
    unfolding g0 by blast
qed

lemma update_or_create_results:
  "update_or_create usr quiz k s c d = (u, d1) \<Longrightarrow> db_results d1 = db_results d"
  by (auto simp: update_or_create_def split: list.splits if_splits)

lemma grade_questions_results:
  "grade_questions usr quiz POST qs g db = (r, db') \<Longrightarrow> db_results db' = db_results db"
proof (induction qs arbitrary: g db)
  case Nil
  then show ?case by simp
next
  case (Cons x xs)
  from Cons.prems show ?case
    by (auto simp: Let_def split: option.splits if_splits prod.splits sum.splits
        dest!: Cons.IH update_or_create_results)
qed

lemma example_db_ok: "answers_ok example_db"
  by (simp add: answers_ok_def unique_answers_def example_db_def example_question_def)

lemma example_quiz:
  "find (\<lambda>q. quiz_id q = 1 \<and> quiz_user q = 7) (db_quizzes example_db) =
     Some \<lparr>quiz_id = 1, quiz_user = 7, quiz_pdf = 1, quiz_subject = str ''Biology'',
          quiz_difficulty = str ''Easy'', number_of_questions = 4, is_completed = True\<rparr>"
  by (simp add: example_db_def)

lemma example_counts:
  "length (quiz_questions example_db 1) = 4"
  "length (filter (answered_right partial_post) (quiz_questions example_db 1)) = 1"
  "length (filter (answered_wrong partial_post) (quiz_questions example_db 1)) = 1"
  "length (filter (answered_right full_post) (quiz_questions example_db 1)) = 3"
  "length (filter (answered_wrong full_post) (quiz_questions example_db 1)) = 1"
  by code_simp+

lemma feedback_dict_inject:
  "feedback_dict a b c = feedback_dict a' b' c' \<longleftrightarrow> a = a' \<and> b = b' \<and> c = c'"
  by (auto simp: feedback_dict_def)

lemma answers_ok_unique: "answers_ok db \<Longrightarrow> unique_answers db"
  by (simp add: answers_ok_def)

lemma answers_ok_question_ids: "answers_ok db \<Longrightarrow> distinct (map question_id (db_questions db))"
  by (simp add: answers_ok_def)

lemma submit_quiz_stores:
  assumes ok: "answers_ok db"
    and quiz: "find (\<lambda>q. quiz_id q = quiz \<and> quiz_user q = usr) (db_quizzes db) = Some quiz_row"
    and run: "submit_quiz cfg llm usr quiz True POST db = (out, db')"
    and q: "q \<in> set (quiz_questions db quiz)" "selected_of POST q = Some s"
  shows "\<exists>a. answers_for db' usr (question_id q) = [a] \<and> answer_selected a = s \<and>
           answer_is_correct a = (PStr s = correct_answer q)"
proof -
  from submit_quiz_post [OF ok quiz, of POST cfg llm] run
  obtain db1 sa wa su pct where g: "grade_questions usr quiz POST (quiz_questions db quiz)
        \<lparr>score = 0, correct_count = 0, wrong_count = 0, user_answers = []\<rparr> db =
        (Inr (graded POST (quiz_questions db quiz)), db1)"
    and db': "db' = Result_create usr quiz (score (graded POST (quiz_questions db quiz)))
           (int (length (quiz_questions db quiz)))
           (correct_count (graded POST (quiz_questions db quiz)))
           (wrong_count (graded POST (quiz_questions db quiz))) pct sa wa su db1"
    by auto
  from grade_questions_sets [OF ok quiz_questions_in
      quiz_questions_distinct [OF answers_ok_question_ids [OF ok]] g q]
  show ?thesis unfolding db' by (simp add: answers_for_Result_create)
qed

text \<open>
  C3, as amended. The questions are graded in the order of their ordinals. A question
  whose answer is absent or empty is skipped: the loop gives the same counters and the
  same tables as the loop without these questions, so it increments neither counter
  and stores no answer for them. An answer that is present is compared with the correct
  label by equality of the texts, and increments exactly one of the two counters: the
  right answers are counted by the score and the correct count, the wrong ones by the
  wrong count, and the two numbers add up to the number of answered questions. These are
  the counts in the stored result.
\<close>

theorem grading_counts:
  "grade_questions usr quiz POST qs g db =
     grade_questions usr quiz POST (filter (answered POST) qs) g db \<and>
   (\<forall>g' db'. grade_questions usr quiz POST qs g db = (Inr g', db') \<longrightarrow>
      score g' = score g + int (length (filter (answered_right POST) qs)) \<and>
      correct_count g' = correct_count g + int (length (filter (answered_right POST) qs)) \<and>
      wrong_count g' = wrong_count g + int (length (filter (answered_wrong POST) qs)) \<and>
      user_answers g' = user_answers g @ map (summary_of POST) (filter (answered POST) qs)) \<and>
   length (filter (answered_right POST) qs) + length (filter (answered_wrong POST) qs) =
     length (filter (answered POST) qs) \<and>
   sorted (map question_order (quiz_questions db quiz)) \<and>
   (\<forall>r' db'. submit_quiz cfg llm usr quiz post POST db = (Inr (Redirect_quiz_result r'), db') \<longrightarrow>
      (\<exists>r. db_results db' = db_results db @ [r] \<and>
         result_total_questions r = int (length (quiz_questions db quiz)) \<and>
         result_correct_answers r = int (length (filter (answered_right POST) (quiz_questions db quiz))) \<and>
         result_wrong_answers r = int (length (filter (answered_wrong POST) (quiz_questions db quiz)))))"
proof (intro conjI allI impI)
  show "grade_questions usr quiz POST qs g db =
     grade_questions usr quiz POST (filter (answered POST) qs) g db"
    by (rule grade_questions_skip)
  show "length (filter (answered_right POST) qs) + length (filter (answered_wrong POST) qs) =
     length (filter (answered POST) qs)"
    by (rule answered_right_or_wrong)
  show "sorted (map question_order (quiz_questions db quiz))"
    by (rule quiz_questions_sorted)
next
  fix g' db'
  assume "grade_questions usr quiz POST qs g db = (Inr g', db')"
  from grade_questions_counts [OF this]
  show "score g' = score g + int (length (filter (answered_right POST) qs))"
    "correct_count g' = correct_count g + int (length (filter (answered_right POST) qs))"
    "wrong_count g' = wrong_count g + int (length (filter (answered_wrong POST) qs))"
    "user_answers g' = user_answers g @ map (summary_of POST) (filter (answered POST) qs)"
    by simp_all
next
  fix r' db'
  assume run: "submit_quiz cfg llm usr quiz post POST db = (Inr (Redirect_quiz_result r'), db')"
  from submit_quiz_cases [OF run]
  obtain g1 db1 sa wa su where g: "grade_questions usr quiz POST (quiz_questions db quiz)
              \<lparr>score = 0, correct_count = 0, wrong_count = 0, user_answers = []\<rparr> db = (Inr g1, db1)"
    and db': "db' = Result_create usr quiz (score g1) (int (length (quiz_questions db quiz))) (correct_count g1)
               (wrong_count g1)
               (py_round2 (if length (quiz_questions db quiz) = 0 then 0
                       else 100 * of_int (score g1) / of_int (int (length (quiz_questions db quiz)))))
               sa wa su db1"
    by auto
  from grade_questions_results [OF g] have res: "db_results db1 = db_results db" .
  from grade_questions_graded [OF g] have "g1 = graded POST (quiz_questions db quiz)" .
  then show "\<exists>r. db_results db' = db_results db @ [r] \<and>
         result_total_questions r = int (length (quiz_questions db quiz)) \<and>
         result_correct_answers r = int (length (filter (answered_right POST) (quiz_questions db quiz))) \<and>
         result_wrong_answers r = int (length (filter (answered_wrong POST) (quiz_questions db quiz)))"
    unfolding db' by (simp add: Result_create_tables res graded_def)
qed

theorem grading_counts_witness:
  "map result_total_questions
     (db_results (snd (submit_quiz no_key (failing []) 7 1 True partial_post example_db))) = [4] \<and>
   map result_correct_answers
     (db_results (snd (submit_quiz no_key (failing []) 7 1 True partial_post example_db))) = [1] \<and>
   map result_wrong_answers
     (db_results (snd (submit_quiz no_key (failing []) 7 1 True partial_post example_db))) = [1]"
proof -
  let ?run = "submit_quiz no_key (failing []) 7 1 True partial_post example_db"
  have "fst ?run = Inr (Redirect_quiz_result 1)" by code_simp
  then have "?run = (Inr (Redirect_quiz_result 1), snd ?run)" by (simp add: prod_eq_iff)
  with grading_counts [where cfg = no_key and llm = "failing []" and usr = 7 and quiz = 1
      and post = True and POST = partial_post and db = example_db and qs = "[]" and g = "graded partial_post []"]
  obtain r where "db_results (snd ?run) = db_results example_db @ [r]"
    "result_total_questions r = int (length (quiz_questions example_db 1))"
    "result_correct_answers r = int (length (filter (answered_right partial_post) (quiz_questions example_db 1)))"
    "result_wrong_answers r = int (length (filter (answered_wrong partial_post) (quiz_questions example_db 1)))"
    by blast
  moreover have "db_results example_db = []" by (simp add: example_db_def)
  ultimately show ?thesis using example_counts by simp
qed

text \<open>
  C3, as stated, fails: when the four questions of the example quiz are all left
  unanswered, the stored result has four questions, no correct answer and no wrong
  answer, and no answer is stored. An absent answer does not increment the wrong
  count.
\<close>

theorem unanswered_not_counted_wrong:
  "map result_total_questions
     (db_results (snd (submit_quiz no_key (failing []) 7 1 True Map.empty example_db))) = [4] \<and>
   map result_correct_answers
     (db_results (snd (submit_quiz no_key (failing []) 7 1 True Map.empty example_db))) = [0] \<and>
   map result_wrong_answers
     (db_results (snd (submit_quiz no_key (failing []) 7 1 True Map.empty example_db))) = [0] \<and>
   db_answers (snd (submit_quiz no_key (failing []) 7 1 True Map.empty example_db)) = []"
  by code_simp

text \<open>
  C5. Where the storage layer's constraints on the answers hold and the quiz is one of
  the user's, a posted submission never raises: it ends with the redirect to the result
  page and has stored one new result with the score, the total and the two counts of
  the grading. When the credential guard fails, the three feedback texts of the result
  are the fixed texts for a service that is not configured; when the guard passes and
  the model call fails, they are the fixed texts for a failed call; the two triples
  differ in each of the three texts.
\<close>

theorem submit_quiz_never_raises:
  assumes "answers_ok db"
    and "find (\<lambda>q. quiz_id q = quiz \<and> quiz_user q = usr) (db_quizzes db) = Some quiz_row"
  shows "\<exists>db' r.
      submit_quiz cfg llm usr quiz True POST db = (Inr (Redirect_quiz_result quiz), db') \<and>
      db_results db' = db_results db @ [r] \<and>
      result_user r = usr \<and> result_quiz r = quiz \<and>
      result_score r = score (graded POST (quiz_questions db quiz)) \<and>
      result_total_questions r = int (length (quiz_questions db quiz)) \<and>
      result_correct_answers r = correct_count (graded POST (quiz_questions db quiz)) \<and>
      result_wrong_answers r = wrong_count (graded POST (quiz_questions db quiz)) \<and>
      (\<forall>e. api_key_guard cfg = Inl e \<longrightarrow>
         feedback_dict (result_strength_analysis r) (result_weakness_analysis r) (result_suggestions r) =
           not_configured_feedback) \<and>
      (\<forall>k cause. api_key_guard cfg = Inr k \<and>
         llm (generate_feedback_prompt (quiz_subject quiz_row) (int (length (quiz_questions db quiz)))
                (correct_count (graded POST (quiz_questions db quiz)))
                (wrong_count (graded POST (quiz_questions db quiz)))
                (user_answers (graded POST (quiz_questions db quiz)))
                (quiz_difficulty quiz_row)) = Inl cause \<longrightarrow>
         feedback_dict (result_strength_analysis r) (result_weakness_analysis r) (result_suggestions r) =
           model_failure_feedback) \<and>
      (\<forall>sa wa su sa' wa' su'.
         not_configured_feedback = feedback_dict sa wa su \<and>
         model_failure_feedback = feedback_dict sa' wa' su' \<longrightarrow>
         sa \<noteq> sa' \<and> wa \<noteq> wa' \<and> su \<noteq> su')"
proof -
  let ?G = "graded POST (quiz_questions db quiz)"
  let ?n = "int (length (quiz_questions db quiz))"
  let ?fb = "feedback_or_fallback
        (fst (generate_performance_feedback cfg llm (quiz_subject quiz_row) ?n
                (correct_count ?G) (wrong_count ?G) (user_answers ?G) (quiz_difficulty quiz_row)))"
  from submit_quiz_post [OF assms, of POST cfg llm]
  obtain db1 sa wa su where res: "db_results db1 = db_results db"
    and fb: "?fb = feedback_dict sa wa su"
    and run: "submit_quiz cfg llm usr quiz True POST db =
        (Inr (Redirect_quiz_result quiz),
         Result_create usr quiz (score ?G) ?n (correct_count ?G) (wrong_count ?G)
           (py_round2 (if length (quiz_questions db quiz) = 0 then 0
                       else 100 * of_int (score ?G) / of_int ?n))
           sa wa su db1)"
    by blast
  define r where "r = \<lparr>result_id = next_result_id db1, result_user = usr, result_quiz = quiz,
         result_score = score ?G, result_total_questions = ?n,
         result_correct_answers = correct_count ?G, result_wrong_answers = wrong_count ?G,
         result_percentage = py_round2 (if length (quiz_questions db quiz) = 0 then 0
                       else 100 * of_int (score ?G) / of_int ?n),
         result_strength_analysis = sa, result_weakness_analysis = wa, result_suggestions = su\<rparr>"
  have tab: "db_results (Result_create usr quiz (score ?G) ?n (correct_count ?G) (wrong_count ?G)
           (py_round2 (if length (quiz_questions db quiz) = 0 then 0
                       else 100 * of_int (score ?G) / of_int ?n))
           sa wa su db1) = db_results db @ [r]"
    by (simp add: Result_create_tables res r_def)
  have fields: "result_user r = usr" "result_quiz r = quiz" "result_score r = score ?G"
    "result_total_questions r = ?n" "result_correct_answers r = correct_count ?G"
    "result_wrong_answers r = wrong_count ?G"
    "feedback_dict (result_strength_analysis r) (result_weakness_analysis r) (result_suggestions r) = ?fb"
    by (simp_all add: r_def fb)
  have nc: "feedback_dict (result_strength_analysis r) (result_weakness_analysis r) (result_suggestions r) =
           not_configured_feedback" if "api_key_guard cfg = Inl e" for e
    using feedback_not_configured [OF that] fields(7) by simp
  have mf: "feedback_dict (result_strength_analysis r) (result_weakness_analysis r) (result_suggestions r) =
           model_failure_feedback"
    if "api_key_guard cfg = Inr k \<and>
         llm (generate_feedback_prompt (quiz_subject quiz_row) ?n (correct_count ?G) (wrong_count ?G)
                (user_answers ?G) (quiz_difficulty quiz_row)) = Inl cause" for k cause
    using feedback_model_failure [of cfg k llm] that fields(7) by simp
  from run tab fields(1-6) nc mf fallbacks_differ show ?thesis
    by (intro exI [of _ "Result_create usr quiz (score ?G) ?n (correct_count ?G) (wrong_count ?G)
           (py_round2 (if length (quiz_questions db quiz) = 0 then 0
                       else 100 * of_int (score ?G) / of_int ?n))
           sa wa su db1"] exI [of _ r]) blast
qed

theorem submit_quiz_never_raises_witness:
  "fst (submit_quiz no_key (failing []) 7 1 True partial_post example_db) = Inr (Redirect_quiz_result 1) \<and>
   map result_strength_analysis
     (db_results (snd (submit_quiz no_key (failing []) 7 1 True partial_post example_db))) =
     [PStr (str ''AI service not configured. Please contact administrator for detailed feedback.'')] \<and>
   fst (submit_quiz some_key (failing (str ''timeout'')) 7 1 True partial_post example_db) =
     Inr (Redirect_quiz_result 1) \<and>
   map result_strength_analysis
     (db_results (snd (submit_quiz some_key (failing (str ''timeout'')) 7 1 True partial_post example_db))) =
     [PStr (str ''Keep practicing to improve your understanding.'')]"
proof -
  have empty: "db_results example_db = []" by (simp add: example_db_def)
  have g1: "api_key_guard no_key = Inl not_configured"
    by (simp add: api_key_guard_def no_key_def py_or_def)
  have g2: "api_key_guard some_key = Inr (str ''secret'')"
    by (simp add: api_key_guard_def some_key_def py_or_def placeholder_key_def str_def)
  from submit_quiz_never_raises [OF example_db_ok example_quiz, of no_key "failing []" partial_post]
  obtain d1 r1 where 1: "submit_quiz no_key (failing []) 7 1 True partial_post example_db =
      (Inr (Redirect_quiz_result 1), d1)" "db_results d1 = db_results example_db @ [r1]"
    "\<forall>e. api_key_guard no_key = Inl e \<longrightarrow>
       feedback_dict (result_strength_analysis r1) (result_weakness_analysis r1) (result_suggestions r1) =
         not_configured_feedback"
    by blast
  from 1(3) g1 have s1: "result_strength_analysis r1 =
      PStr (str ''AI service not configured. Please contact administrator for detailed feedback.'')"
    by (simp add: not_configured_feedback_def feedback_dict_inject)
  from submit_quiz_never_raises [OF example_db_ok example_quiz, of some_key "failing (str ''timeout'')" partial_post]
  obtain d2 r2 where 2: "submit_quiz some_key (failing (str ''timeout'')) 7 1 True partial_post example_db =
      (Inr (Redirect_quiz_result 1), d2)" "db_results d2 = db_results example_db @ [r2]"
    "\<forall>k cause. api_key_guard some_key = Inr k \<and>
         failing (str ''timeout'') (generate_feedback_prompt
                (quiz_subject \<lparr>quiz_id = 1, quiz_user = 7, quiz_pdf = 1, quiz_subject = str ''Biology'',
                   quiz_difficulty = str ''Easy'', number_of_questions = 4, is_completed = True\<rparr>)
                (int (length (quiz_questions example_db 1)))
                (correct_count (graded partial_post (quiz_questions example_db 1)))
                (wrong_count (graded partial_post (quiz_questions example_db 1)))
                (user_answers (graded partial_post (quiz_questions example_db 1)))
                (quiz_difficulty \<lparr>quiz_id = 1, quiz_user = 7, quiz_pdf = 1, quiz_subject = str ''Biology'',
                   quiz_difficulty = str ''Easy'', number_of_questions = 4, is_completed = True\<rparr>)) = Inl cause \<longrightarrow>
         feedback_dict (result_strength_analysis r2) (result_weakness_analysis r2) (result_suggestions r2) =
           model_failure_feedback"
    by blast
  from 2(3) g2 have "feedback_dict (result_strength_analysis r2) (result_weakness_analysis r2) (result_suggestions r2) =
           model_failure_feedback"
    by (simp add: failing_def)
  then have s2: "result_strength_analysis r2 = PStr (str ''Keep practicing to improve your understanding.'')"
    by (simp add: model_failure_feedback_def feedback_dict_inject)
  from 1(1,2) 2(1,2) s1 s2 empty show ?thesis by simp
qed

text \<open>
  C7. With Python's floats read as exact rationals: the percentage of a stored result is
  the value of \<^verbatim>\<open>100 * correct / total\<close> rounded to two decimals, and 0 when the total is
  0; computing it raises no \<^verbatim>\<open>ZeroDivisionError\<close>. The rounded value is a whole number
  of hundredths at most half a hundredth away. For no questions it is 0, for 3 correct
  out of 4 it is 75, and for 1 correct out of 3 it is 33.33.
\<close>

theorem stored_percentage:
  "(\<forall>r'. submit_quiz cfg llm usr quiz post POST db = (Inr (Redirect_quiz_result r'), db') \<longrightarrow>
      (\<exists>r. db_results db' = db_results db @ [r] \<and>
         result_correct_answers r = result_score r \<and>
         result_percentage r =
           py_round2 (if result_total_questions r = 0 then 0
                      else 100 * of_int (result_correct_answers r) / of_int (result_total_questions r)))) \<and>
   percentage scr (int n) = Inr (if n = 0 then 0 else 100 * of_int scr / of_int (int n)) \<and>
   (\<exists>k::int. py_round2 x = of_int k / 100) \<and> \<bar>py_round2 x - x\<bar> \<le> 1 / 200 \<and>
   bind_exn (percentage 0 0) (\<lambda>p. Inr (py_round2 p)) = Inr 0 \<and>
   bind_exn (percentage 3 4) (\<lambda>p. Inr (py_round2 p)) = Inr 75 \<and>
   bind_exn (percentage 1 3) (\<lambda>p. Inr (py_round2 p)) = Inr (3333 / 100)"
proof -
  have stored: "\<exists>r. db_results db' = db_results db @ [r] \<and>
         result_correct_answers r = result_score r \<and>
         result_percentage r =
           py_round2 (if result_total_questions r = 0 then 0
                      else 100 * of_int (result_correct_answers r) / of_int (result_total_questions r))"
    if run: "submit_quiz cfg llm usr quiz post POST db = (Inr (Redirect_quiz_result r'), db')" for r'
  proof -
    from submit_quiz_cases [OF run]
    obtain g1 db1 sa wa su where g: "grade_questions usr quiz POST (quiz_questions db quiz)
              \<lparr>score = 0, correct_count = 0, wrong_count = 0, user_answers = []\<rparr> db = (Inr g1, db1)"
      and db': "db' = Result_create usr quiz (score g1) (int (length (quiz_questions db quiz))) (correct_count g1)
               (wrong_count g1)
               (py_round2 (if length (quiz_questions db quiz) = 0 then 0
                       else 100 * of_int (score g1) / of_int (int (length (quiz_questions db quiz)))))
               sa wa su db1"
      by auto
    from grade_questions_results [OF g] have res: "db_results db1 = db_results db" .
    from grade_questions_graded [OF g] have "score g1 = correct_count g1" by (simp add: graded_def)
    then show ?thesis
      unfolding db' by (simp add: Result_create_tables res)
  qed
  from stored percentage_formula [of scr n] py_round2_hundredth [of x] py_round2_near [of x]
    percentage_examples
  show ?thesis by blast
qed

theorem stored_percentage_witness:
  "map result_percentage
     (db_results (snd (submit_quiz no_key (failing []) 7 1 True full_post example_db))) = [75]"
proof -
  let ?run = "submit_quiz no_key (failing []) 7 1 True full_post example_db"
  have "fst ?run = Inr (Redirect_quiz_result 1)" by code_simp
  then have "?run = (Inr (Redirect_quiz_result 1), snd ?run)" by (simp add: prod_eq_iff)
  with stored_percentage [where cfg = no_key and llm = "failing []" and usr = 7 and quiz = 1
      and post = True and POST = full_post and db = example_db and db' = "snd ?run"
      and scr = 3 and n = 4 and x = 0]
  obtain r where r: "db_results (snd ?run) = db_results example_db @ [r]"
    "result_percentage r =
           py_round2 (if result_total_questions r = 0 then 0
                      else 100 * of_int (result_correct_answers r) / of_int (result_total_questions r))"
    by blast
  have empty: "db_results example_db = []" by (simp add: example_db_def)
  have "map result_total_questions (db_results (snd ?run)) = [4]"
    "map result_correct_answers (db_results (snd ?run)) = [3]"
    by code_simp+
  with r(1) empty have "result_total_questions r = 4" "result_correct_answers r = 3" by simp_all
  with r(2) have "result_percentage r = py_round2 (100 * 3 / 4)" by simp
  also have "\<dots> = 75" by code_simp
  finally show ?thesis using r(1) empty by simp
qed

text \<open>
  C8. Where the storage layer's constraints on the answers hold, they hold again after
  every submission, so there is at most one stored answer for every user and question
  after the first submission and after the second. When the second submission is a post
  for a quiz of the user and selects an answer for one of its questions, afterwards
  exactly one answer of the user to that question is stored, and it holds that
  selection and whether it equals the correct label, whatever the first submission
  selected.
\<close>

theorem one_answer_per_question:
  assumes "answers_ok db"
    and "submit_quiz cfg1 llm1 usr quiz post1 POST1 db = (out1, db1)"
    and "submit_quiz cfg2 llm2 usr quiz post2 POST2 db1 = (out2, db2)"
  shows "unique_answers db1 \<and> unique_answers db2 \<and>
     (\<forall>quiz_row q s. post2 \<and>
        find (\<lambda>q. quiz_id q = quiz \<and> quiz_user q = usr) (db_quizzes db) = Some quiz_row \<and>
        q \<in> set (quiz_questions db quiz) \<and> selected_of POST2 q = Some s \<longrightarrow>
        (\<exists>a. answers_for db2 usr (question_id q) = [a] \<and> answer_selected a = s \<and>
              answer_is_correct a = (PStr s = correct_answer q)))"
proof -
  from submit_quiz_preserves [OF assms(1,2)]
  have ok1: "answers_ok db1" and tabs: "db_questions db1 = db_questions db" "db_quizzes db1 = db_quizzes db"
    by simp_all
  from submit_quiz_preserves [OF ok1 assms(3)] have ok2: "answers_ok db2" by simp
  have stores: "\<exists>a. answers_for db2 usr (question_id q) = [a] \<and> answer_selected a = s \<and>
              answer_is_correct a = (PStr s = correct_answer q)"
    if "post2 \<and> find (\<lambda>q. quiz_id q = quiz \<and> quiz_user q = usr) (db_quizzes db) = Some quiz_row \<and>
        q \<in> set (quiz_questions db quiz) \<and> selected_of POST2 q = Some s" for quiz_row q s
  proof -
    from tabs have qq: "quiz_questions db1 quiz = quiz_questions db quiz"
      by (simp add: quiz_questions_def)
    from that tabs qq have "find (\<lambda>q. quiz_id q = quiz \<and> quiz_user q = usr) (db_quizzes db1) = Some quiz_row"
      "q \<in> set (quiz_questions db1 quiz)" "selected_of POST2 q = Some s"
      "submit_quiz cfg2 llm2 usr quiz True POST2 db1 = (out2, db2)"
      using assms(3) by simp_all
    from submit_quiz_stores [OF ok1 this(1,4,2,3)] show ?thesis .
  qed
  show ?thesis
  proof (intro conjI allI impI)
    show "unique_answers db1" using ok1 by (rule answers_ok_unique)
    show "unique_answers db2" using ok2 by (rule answers_ok_unique)
  next
    fix quiz_row q s
    assume "post2 \<and>
        find (\<lambda>q. quiz_id q = quiz \<and> quiz_user q = usr) (db_quizzes db) = Some quiz_row \<and>
        q \<in> set (quiz_questions db quiz) \<and> selected_of POST2 q = Some s"
    then show "\<exists>a. answers_for db2 usr (question_id q) = [a] \<and> answer_selected a = s \<and>
              answer_is_correct a = (PStr s = correct_answer q)"
      by (rule stores)
  qed
qed

theorem one_answer_per_question_witness:
  "submit_quiz some_key (answering (str ''{}'')) 7 1 True partial_post example_db =
     (Inr (Redirect_quiz_result 1), example_db_submitted) \<and>
   map answer_selected
     (answers_for (snd (submit_quiz no_key (failing []) 7 1 True full_post example_db_submitted)) 7 2) =
     [str ''B''] \<and>
   map answer_is_correct
     (answers_for (snd (submit_quiz no_key (failing []) 7 1 True full_post example_db_submitted)) 7 2) =
     [True] \<and>
   unique_answers (snd (submit_quiz no_key (failing []) 7 1 True full_post example_db_submitted))"
proof -
  let ?run2 = "submit_quiz no_key (failing []) 7 1 True full_post example_db_submitted"
  have run1: "submit_quiz some_key (answering (str ''{}'')) 7 1 True partial_post example_db =
     (Inr (Redirect_quiz_result 1), example_db_submitted)"
    by code_simp
  have run2: "?run2 = (fst ?run2, snd ?run2)" by simp
  have q: "example_question 2 ''B'' \<in> set (quiz_questions example_db 1)"
    "selected_of full_post (example_question 2 ''B'') = Some (str ''B'')"
    by code_simp+
  have q': "question_id (example_question 2 ''B'') = 2"
    "correct_answer (example_question 2 ''B'') = PStr (str ''B'')"
    by (simp_all add: example_question_def)
  note c8 = one_answer_per_question [OF example_db_ok run1 run2]
  from c8 have u: "unique_answers (snd ?run2)" by simp
  from c8 example_quiz q
  have "\<exists>a. answers_for (snd ?run2) 7 (question_id (example_question 2 ''B'')) = [a] \<and>
           answer_selected a = str ''B'' \<and>
           answer_is_correct a = (PStr (str ''B'') = correct_answer (example_question 2 ''B''))"
    by blast
  then obtain a where "answers_for (snd ?run2) 7 2 = [a]" "answer_selected a = str ''B''"
    "answer_is_correct a"
    unfolding q' by auto
  with run1 u show ?thesis by simp
qed

section \<open>Properties of creating a quiz\<close>

lemma Question_create_tables:
  "db_questions (Question_create quiz kw idx db) =
     db_questions db @
       [\<lparr>question_id = next_question_id db, question_quiz = quiz,
         question_text = f_question_text kw, option_a = f_option_a kw, option_b = f_option_b kw,
         option_c = f_option_c kw, option_d = f_option_d kw,
         correct_answer = f_correct_answer kw, explanation = f_explanation kw,
         question_order = idx\<rparr>]"
  "db_quizzes (Question_create quiz kw idx db) = db_quizzes db"
  "db_documents (Question_create quiz kw idx db) = db_documents db"
  "db_answers (Question_create quiz kw idx db) = db_answers db"
  "db_results (Question_create quiz kw idx db) = db_results db"
  "next_quiz_id (Question_create quiz kw idx db) = next_quiz_id db"
  by (simp_all add: Question_create_def)

lemma save_questions_spec:
  assumes "save_questions quiz idx items db = (r, db')"
  shows "\<exists>new. db_questions db' = db_questions db @ new \<and>
           db_quizzes db' = db_quizzes db \<and> db_documents db' = db_documents db \<and>
           db_answers db' = db_answers db \<and> db_results db' = db_results db \<and>
           next_quiz_id db' = next_quiz_id db \<and>
           (\<forall>q \<in> set new. question_quiz q = quiz) \<and>
           map question_order new = [idx..<idx + length new] \<and>
           (r = None \<longrightarrow> map question_kwargs items = map (Inr \<circ> fields_of) new)"
  using assms
proof (induction items arbitrary: idx db)
  case Nil
  then show ?case by simp
next
  case (Cons q_data rest)
  show ?case
  proof (cases "question_kwargs q_data")
    case (Inl e)
    with Cons.prems show ?thesis by auto
  next
    case (Inr kw)
    let ?row = "\<lparr>question_id = next_question_id db, question_quiz = quiz,
         question_text = f_question_text kw, option_a = f_option_a kw, option_b = f_option_b kw,
         option_c = f_option_c kw, option_d = f_option_d kw,
         correct_answer = f_correct_answer kw, explanation = f_explanation kw,
         question_order = idx\<rparr>"
    from Cons.prems Inr
    have "save_questions quiz (Suc idx) rest (Question_create quiz kw idx db) = (r, db')"
      by simp
    from Cons.IH [OF this] obtain new where new:
      "db_questions db' = db_questions (Question_create quiz kw idx db) @ new"
      "db_quizzes db' = db_quizzes db" "db_documents db' = db_documents db"
      "db_answers db' = db_answers db" "db_results db' = db_results db"
      "next_quiz_id db' = next_quiz_id db"
      "\<forall>q \<in> set new. question_quiz q = quiz"
      "map question_order new = [Suc idx..<Suc idx + length new]"
      "r = None \<longrightarrow> map question_kwargs rest = map (Inr \<circ> fields_of) new"
      by (auto simp: Question_create_tables)
    have f: "fields_of ?row = kw" by (simp add: fields_of_def)
    have "[idx..<idx + length (?row # new)] = idx # [Suc idx..<Suc idx + length new]"
      using upt_conv_Cons [of idx "Suc (idx + length new)"] by (simp del: upt_Suc)
    moreover have "map question_order (?row # new) = idx # map question_order new" by simp
    ultimately have "map question_order (?row # new) = [idx..<idx + length (?row # new)]"
      using new(8) by (simp only:)
    moreover have "r = None \<longrightarrow> map question_kwargs (q_data # rest) = map (Inr \<circ> fields_of) (?row # new)"
      using new(9) Inr f by simp
    moreover have "db_questions db' = db_questions db @ (?row # new)"
      using new(1) by (simp add: Question_create_tables)
    moreover have "\<forall>q \<in> set (?row # new). question_quiz q = quiz"
      using new(7) by simp
    ultimately show ?thesis using new(2-6) by blast
  qed
qed

lemma Quiz_create_tables:
  "db_quizzes (Quiz_create usr pdf subj diff n db) =
     db_quizzes db @
       [\<lparr>quiz_id = next_quiz_id db, quiz_user = usr, quiz_pdf = pdf, quiz_subject = subj,
         quiz_difficulty = diff, number_of_questions = n, is_completed = False\<rparr>]"
  "db_questions (Quiz_create usr pdf subj diff n db) = db_questions db"
  "db_documents (Quiz_create usr pdf subj diff n db) = db_documents db"
  by (simp_all add: Quiz_create_def)

lemma generate_or_delete_outcome:
  assumes fresh: "quiz_keys_fresh db"
    and run: "generate_or_delete cfg llm (next_quiz_id db) pdf_text subj diff n
                (Quiz_create usr pdf subj diff n db) = ((resp, msg), db')"
  shows "(resp = Redirect_dashboard \<and> db_quizzes db' = db_quizzes db \<and>
            db_questions db' = db_questions db) \<or>
         (\<exists>data items new db1.
            resp = Redirect_take_quiz (next_quiz_id db) \<and> msg = Success_message (length new) \<and>
            fst (generate_quiz_questions cfg llm pdf_text subj diff n) = Inr data \<and>
            py_iter data = Inr items \<and>
            map question_kwargs items = map (Inr \<circ> fields_of) new \<and>
            db_quizzes db1 = db_quizzes db @
              [\<lparr>quiz_id = next_quiz_id db, quiz_user = usr, quiz_pdf = pdf, quiz_subject = subj,
                quiz_difficulty = diff, number_of_questions = n, is_completed = False\<rparr>] \<and>
            db_questions db1 = db_questions db @ new \<and>
            db' = Quiz_save_completed (next_quiz_id db) db1 \<and>
            db_quizzes db' = db_quizzes db @
              [\<lparr>quiz_id = next_quiz_id db, quiz_user = usr, quiz_pdf = pdf, quiz_subject = subj,
                quiz_difficulty = diff, number_of_questions = n, is_completed = True\<rparr>] \<and>
            db_questions db' = db_questions db @ new \<and>
            (\<forall>q \<in> set new. question_quiz q = next_quiz_id db) \<and>
            map question_order new = [1..<Suc (length new)])"
proof -
  let ?quiz = "next_quiz_id db"
  let ?dbq = "Quiz_create usr pdf subj diff n db"
  from fresh have old: "\<forall>q \<in> set (db_quizzes db). quiz_id q \<noteq> ?quiz"
    "\<forall>q \<in> set (db_questions db). question_quiz q \<noteq> ?quiz"
    by (auto simp: quiz_keys_fresh_def)
  have keep: "filter (\<lambda>q. quiz_id q \<noteq> ?quiz) (db_quizzes db) = db_quizzes db"
    "filter (\<lambda>q. question_quiz q \<noteq> ?quiz) (db_questions db) = db_questions db"
    "map (\<lambda>q. if quiz_id q = ?quiz then q\<lparr>is_completed := True\<rparr> else q) (db_quizzes db) = db_quizzes db"
    using old by (auto simp: filter_id_conv intro: map_idI)
  have failed: "db_quizzes (Quiz_delete ?quiz d) = db_quizzes db \<and>
      db_questions (Quiz_delete ?quiz d) = db_questions db"
    if "db_quizzes d = db_quizzes ?dbq" "db_questions d = db_questions db @ new"
      "\<forall>q \<in> set new. question_quiz q = ?quiz" for d new
  proof -
    from that(3) have "filter (\<lambda>q. question_quiz q \<noteq> ?quiz) new = []"
      by (simp add: filter_empty_conv)
    with that(1,2) keep show ?thesis
      by (simp add: Quiz_delete_def Let_def Quiz_create_tables)
  qed
  show ?thesis
  proof (cases "fst (generate_quiz_questions cfg llm pdf_text subj diff n)")
    case (Inl e)
    with run have "resp = Redirect_dashboard" "db' = Quiz_delete ?quiz ?dbq"
      by (simp_all add: generate_or_delete_def generate_and_save_def)
    with failed [of ?dbq "[]"] show ?thesis by (simp add: Quiz_create_tables)
  next
    case (Inr data)
    show ?thesis
    proof (cases "py_iter data")
      case (Inl e)
      with run Inr have "resp = Redirect_dashboard" "db' = Quiz_delete ?quiz ?dbq"
        by (simp_all add: generate_or_delete_def generate_and_save_def)
      with failed [of ?dbq "[]"] show ?thesis by (simp add: Quiz_create_tables)
    next
      case items: (Inr items)
      obtain r db1 where save: "save_questions ?quiz 1 items ?dbq = (r, db1)"
        by (cases "save_questions ?quiz 1 items ?dbq") auto
      from save_questions_spec [OF save] obtain new where new:
        "db_questions db1 = db_questions db @ new" "db_quizzes db1 = db_quizzes ?dbq"
        "\<forall>q \<in> set new. question_quiz q = ?quiz"
        "map question_order new = [1..<1 + length new]"
        "r = None \<longrightarrow> map question_kwargs items = map (Inr \<circ> fields_of) new"
        by (auto simp: Quiz_create_tables)
      show ?thesis
      proof (cases r)
        case (Some e)
        with run Inr items save have "resp = Redirect_dashboard" "db' = Quiz_delete ?quiz db1"
          by (simp_all add: generate_or_delete_def generate_and_save_def)
        with failed [OF new(2,1,3)] show ?thesis by simp
      next
        case None
        with new(5) have kw: "map question_kwargs items = map (Inr \<circ> fields_of) new" by simp
        then have "length items = length new" by (rule map_eq_imp_length_eq)
        with run Inr items save None have out: "resp = Redirect_take_quiz ?quiz"
          "msg = Success_message (length new)" "db' = Quiz_save_completed ?quiz db1"
          by (simp_all add: generate_or_delete_def generate_and_save_def)
        have q1: "db_quizzes db1 = db_quizzes db @
              [\<lparr>quiz_id = ?quiz, quiz_user = usr, quiz_pdf = pdf, quiz_subject = subj,
                quiz_difficulty = diff, number_of_questions = n, is_completed = False\<rparr>]"
          using new(2) by (simp add: Quiz_create_tables)
        have q': "db_quizzes db' = db_quizzes db @
              [\<lparr>quiz_id = ?quiz, quiz_user = usr, quiz_pdf = pdf, quiz_subject = subj,
                quiz_difficulty = diff, number_of_questions = n, is_completed = True\<rparr>]"
          "db_questions db' = db_questions db @ new"
          using keep(3) by (simp_all add: out(3) Quiz_save_completed_def q1 new(1))
        have ord: "map question_order new = [1..<Suc (length new)]"
          using new(4) by simp
        from out Inr items kw q1 new(1,3) ord q' show ?thesis
          by (intro disjI2 exI [of _ data] exI [of _ items] exI [of _ new] exI [of _ db1]) blast
      qed
    qed
  qed
qed

lemma PDFDocument_create_tables:
  "db_quizzes (PDFDocument_create usr ttl fl txt db) = db_quizzes db"
  "db_questions (PDFDocument_create usr ttl fl txt db) = db_questions db"
  "next_quiz_id (PDFDocument_create usr ttl fl txt db) = next_quiz_id db"
  by (simp_all add: PDFDocument_create_def)

lemma PDFDocument_create_fresh:
  "quiz_keys_fresh db \<Longrightarrow> quiz_keys_fresh (PDFDocument_create usr ttl fl txt db)"
  by (simp add: quiz_keys_fresh_def PDFDocument_create_tables)

lemma create_quiz_from_topic_cases:
  assumes "create_quiz_from_topic cfg llm usr post form db = ((resp, msg), db')"
  shows "(resp = Redirect_dashboard \<and> db' = db) \<or>
         (\<exists>topic m. msg = Some m \<and>
            generate_or_delete cfg llm
              (next_quiz_id (PDFDocument_create usr (str ''Topic: '' @ topic) None
                 (Some (str ''Topic: '' @ topic)) db))
              (str ''Generate questions about: '' @ topic) topic
              (difficulty_text (form_difficulty form)) (form_num_questions form)
              (Quiz_create usr (next_pdf_id db) topic (difficulty_text (form_difficulty form))
                 (form_num_questions form)
                 (PDFDocument_create usr (str ''Topic: '' @ topic) None
                    (Some (str ''Topic: '' @ topic)) db)) = ((resp, m), db'))"
  using assms
  by (auto simp: create_quiz_from_topic_def Let_def split: if_splits option.splits prod.splits)

lemma create_quiz_cases:
  assumes "create_quiz cfg llm usr pdf post form db = ((resp, msg), db')"
  shows "((resp = Redirect_dashboard \<or> resp = Http404 \<or> resp = Render_create_quiz pdf) \<and> db' = db) \<or>
         (\<exists>subj text_content m. msg = Some m \<and>
            generate_or_delete cfg llm (next_quiz_id db) text_content subj
              (difficulty_text (form_difficulty form)) (form_num_questions form)
              (Quiz_create usr pdf subj (difficulty_text (form_difficulty form))
                 (form_num_questions form) db) = ((resp, m), db'))"
  using assms
  by (auto simp: create_quiz_def Let_def split: if_splits option.splits prod.splits)

lemma generate_or_delete_all_or_nothing:
  assumes fresh: "quiz_keys_fresh db0"
    and tabs: "db_quizzes db0 = db_quizzes db" "db_questions db0 = db_questions db"
      "next_quiz_id db0 = next_quiz_id db"
    and run: "generate_or_delete cfg llm (next_quiz_id db0) pdf_text subj diff n
                (Quiz_create usr pdf subj diff n db0) = ((resp, m), db')"
  shows "((\<forall>q. resp \<noteq> Redirect_take_quiz q) \<longrightarrow>
            db_quizzes db' = db_quizzes db \<and> db_questions db' = db_questions db) \<and>
         (\<forall>q. resp = Redirect_take_quiz q \<longrightarrow>
            q = next_quiz_id db \<and>
            (\<exists>row new db1 data items pdf_text subj diff.
               fst (generate_quiz_questions cfg llm pdf_text subj diff n) = Inr data \<and>
               py_iter data = Inr items \<and>
               map question_kwargs items = map (Inr \<circ> fields_of) new \<and>
               Some m = Some (Success_message (length new)) \<and>
               quiz_id row = q \<and> quiz_user row = usr \<and> number_of_questions row = n \<and>
               is_completed row \<and>
               db_quizzes db1 = db_quizzes db @ [row\<lparr>is_completed := False\<rparr>] \<and>
               db_questions db1 = db_questions db @ new \<and>
               db' = Quiz_save_completed q db1 \<and>
               db_quizzes db' = db_quizzes db @ [row] \<and>
               db_questions db' = db_questions db @ new \<and>
               (\<forall>x \<in> set new. question_quiz x = q) \<and>
               map question_order new = [1..<Suc (length new)]))"
proof -
  from generate_or_delete_outcome [OF fresh run]
  show ?thesis
  proof (elim disjE exE conjE)
    assume "resp = Redirect_dashboard" "db_quizzes db' = db_quizzes db0"
      "db_questions db' = db_questions db0"
    with tabs show ?thesis by simp
  next
    fix data items new db1
    let ?row = "\<lparr>quiz_id = next_quiz_id db0, quiz_user = usr, quiz_pdf = pdf, quiz_subject = subj,
                quiz_difficulty = diff, number_of_questions = n, is_completed = True\<rparr>"
    assume a: "resp = Redirect_take_quiz (next_quiz_id db0)" "m = Success_message (length new)"
      "fst (generate_quiz_questions cfg llm pdf_text subj diff n) = Inr data"
      "py_iter data = Inr items" "map question_kwargs items = map (Inr \<circ> fields_of) new"
      "db_quizzes db1 = db_quizzes db0 @
              [\<lparr>quiz_id = next_quiz_id db0, quiz_user = usr, quiz_pdf = pdf, quiz_subject = subj,
                quiz_difficulty = diff, number_of_questions = n, is_completed = False\<rparr>]"
      "db_questions db1 = db_questions db0 @ new"
      "db' = Quiz_save_completed (next_quiz_id db0) db1"
      "db_quizzes db' = db_quizzes db0 @ [?row]"
      "db_questions db' = db_questions db0 @ new"
      "\<forall>q \<in> set new. question_quiz q = next_quiz_id db0"
      "map question_order new = [1..<Suc (length new)]"
    have "\<exists>row new db1 data items pdf_text subj diff.
               fst (generate_quiz_questions cfg llm pdf_text subj diff n) = Inr data \<and>
               py_iter data = Inr items \<and>
               map question_kwargs items = map (Inr \<circ> fields_of) new \<and>
               Some m = Some (Success_message (length new)) \<and>
               quiz_id row = next_quiz_id db \<and> quiz_user row = usr \<and> number_of_questions row = n \<and>
               is_completed row \<and>
               db_quizzes db1 = db_quizzes db @ [row\<lparr>is_completed := False\<rparr>] \<and>
               db_questions db1 = db_questions db @ new \<and>
               db' = Quiz_save_completed (next_quiz_id db) db1 \<and>
               db_quizzes db' = db_quizzes db @ [row] \<and>
               db_questions db' = db_questions db @ new \<and>
               (\<forall>x \<in> set new. question_quiz x = next_quiz_id db) \<and>
               map question_order new = [1..<Suc (length new)]"
      using a tabs
      by (intro exI [of _ ?row] exI [of _ new] exI [of _ db1] exI [of _ data] exI [of _ items]
          exI [of _ pdf_text] exI [of _ subj] exI [of _ diff]) simp
    with a(1) tabs(3) show ?thesis by simp
  qed
qed

section \<open>Creating a quiz\<close>

text \<open>
  C1, as amended. Both views that create a quiz, \<^verbatim>\<open>create_quiz_from_topic\<close> and
  \<^verbatim>\<open>create_quiz\<close>, are all or nothing for the quiz and its questions. On tables whose
  quiz keys are below the next key, a request that does not end in the redirect to the
  new quiz leaves the quizzes and the questions as they were: no quiz of the request
  and none of its questions remain. A request that does end in that redirect has added
  one quiz, of the signed-in user, with the posted number of questions in its field and
  completed, and one question for every element of the list that the parser returned,
  in the order of the list with the ordinals from one, each built by the defaulting
  \<^verbatim>\<open>get\<close>s; all of them are in the table before the quiz is saved as completed. The
  number of stored questions is the length of the parsed list, which the message reports;
  it is not compared with the posted number, and neither the options nor the label of
  the correct answer are checked.
\<close>

theorem quiz_creation_all_or_nothing:
  assumes "quiz_keys_fresh db"
    and "create_quiz_from_topic cfg llm usr post form db = ((resp, msg), db') \<or>
         create_quiz cfg llm usr pdf post form db = ((resp, msg), db')"
  shows "((\<forall>q. resp \<noteq> Redirect_take_quiz q) \<longrightarrow>
            db_quizzes db' = db_quizzes db \<and> db_questions db' = db_questions db) \<and>
         (\<forall>q. resp = Redirect_take_quiz q \<longrightarrow>
            q = next_quiz_id db \<and>
            (\<exists>row new db1 data items pdf_text subj diff.
               fst (generate_quiz_questions cfg llm pdf_text subj diff (form_num_questions form)) = Inr data \<and>
               py_iter data = Inr items \<and>
               map question_kwargs items = map (Inr \<circ> fields_of) new \<and>
               msg = Some (Success_message (length new)) \<and>
               quiz_id row = q \<and> quiz_user row = usr \<and>
               number_of_questions row = form_num_questions form \<and> is_completed row \<and>
               db_quizzes db1 = db_quizzes db @ [row\<lparr>is_completed := False\<rparr>] \<and>
               db_questions db1 = db_questions db @ new \<and>
               db' = Quiz_save_completed q db1 \<and>
               db_quizzes db' = db_quizzes db @ [row] \<and>
               db_questions db' = db_questions db @ new \<and>
               (\<forall>x \<in> set new. question_quiz x = q) \<and>
               map question_order new = [1..<Suc (length new)]))"
  using assms(2)
proof
  assume "create_quiz_from_topic cfg llm usr post form db = ((resp, msg), db')"
  from create_quiz_from_topic_cases [OF this] show ?thesis
  proof (elim disjE exE conjE)
    assume "resp = Redirect_dashboard" "db' = db"
    then show ?thesis by simp
  next
    fix topic m
    assume m: "msg = Some m"
      and run: "generate_or_delete cfg llm
              (next_quiz_id (PDFDocument_create usr (str ''Topic: '' @ topic) None
                 (Some (str ''Topic: '' @ topic)) db))
              (str ''Generate questions about: '' @ topic) topic
              (difficulty_text (form_difficulty form)) (form_num_questions form)
              (Quiz_create usr (next_pdf_id db) topic (difficulty_text (form_difficulty form))
                 (form_num_questions form)
                 (PDFDocument_create usr (str ''Topic: '' @ topic) None
                    (Some (str ''Topic: '' @ topic)) db)) = ((resp, m), db')"
    from generate_or_delete_all_or_nothing
      [OF PDFDocument_create_fresh [OF assms(1)] PDFDocument_create_tables run]
    show ?thesis unfolding m .
  qed
next
  assume "create_quiz cfg llm usr pdf post form db = ((resp, msg), db')"
  from create_quiz_cases [OF this] show ?thesis
  proof (elim disjE exE conjE)
    fix subj text_content m
    assume m: "msg = Some m"
      and run: "generate_or_delete cfg llm (next_quiz_id db) text_content subj
              (difficulty_text (form_difficulty form)) (form_num_questions form)
              (Quiz_create usr pdf subj (difficulty_text (form_difficulty form))
                 (form_num_questions form) db) = ((resp, m), db')"
    from generate_or_delete_all_or_nothing [OF assms(1) refl refl refl run]
    show ?thesis unfolding m .
  qed simp_all
qed

theorem quiz_creation_all_or_nothing_witness:
  \<open>map quiz_id (db_quizzes (snd (create_quiz some_key
       (answering (str ''[{"question": "Q", "options": {"A": "a", "B": "b", "C": "c", "D": "d"}, "correct_answer": "B"}]''))
       7 1 True \<lparr>form_name = Some (str ''Biology''), form_difficulty = Some (str ''Easy''),
                 form_num_questions = 1\<rparr> example_db))) = [1, 2] \<and>
   map is_completed (db_quizzes (snd (create_quiz some_key
       (answering (str ''[{"question": "Q", "options": {"A": "a", "B": "b", "C": "c", "D": "d"}, "correct_answer": "B"}]''))
       7 1 True \<lparr>form_name = Some (str ''Biology''), form_difficulty = Some (str ''Easy''),
                 form_num_questions = 1\<rparr> example_db))) = [True, True] \<and>
   db_quizzes (snd (create_quiz_from_topic some_key (failing (str ''timeout'')) 7 True
       \<lparr>form_name = Some (str ''Cells''), form_difficulty = Some (str ''Hard''),
        form_num_questions = 3\<rparr> example_db)) = db_quizzes example_db \<and>
   db_questions (snd (create_quiz_from_topic some_key (failing (str ''timeout'')) 7 True
       \<lparr>form_name = Some (str ''Cells''), form_difficulty = Some (str ''Hard''),
        form_num_questions = 3\<rparr> example_db)) = db_questions example_db\<close>
proof -
  let ?form = "\<lparr>form_name = Some (str ''Biology''), form_difficulty = Some (str ''Easy''),
                 form_num_questions = 1\<rparr>"
  let ?run = \<open>create_quiz some_key
       (answering (str ''[{"question": "Q", "options": {"A": "a", "B": "b", "C": "c", "D": "d"}, "correct_answer": "B"}]''))
       7 1 True ?form example_db\<close>
  let ?topic = "\<lparr>form_name = Some (str ''Cells''), form_difficulty = Some (str ''Hard''),
        form_num_questions = 3\<rparr>"
  let ?fail = "create_quiz_from_topic some_key (failing (str ''timeout'')) 7 True ?topic example_db"
  have fresh: "quiz_keys_fresh example_db"
    by (simp add: quiz_keys_fresh_def example_db_def example_question_def)
  have r: "fst (fst ?run) = Redirect_take_quiz 2"
    by code_simp
  have f: "fst (fst ?fail) = Redirect_dashboard"
    by code_simp
  have q: "db_quizzes example_db = [\<lparr>quiz_id = 1, quiz_user = 7, quiz_pdf = 1, quiz_subject = str ''Biology'',
          quiz_difficulty = str ''Easy'', number_of_questions = 4, is_completed = True\<rparr>]"
    by (simp add: example_db_def)
  have "?run = ((Redirect_take_quiz 2, snd (fst ?run)), snd ?run)"
    using r by (metis prod.collapse)
  with quiz_creation_all_or_nothing [OF fresh disjI2, where form = ?form and db' = "snd ?run"
      and resp = "Redirect_take_quiz 2"]
  obtain row where "quiz_id row = 2" "is_completed row"
    "db_quizzes (snd ?run) = db_quizzes example_db @ [row]"
    by blast
  then have 1: "map quiz_id (db_quizzes (snd ?run)) = [1, 2]"
    "map is_completed (db_quizzes (snd ?run)) = [True, True]"
    unfolding q by simp_all
  have "?fail = ((Redirect_dashboard, snd (fst ?fail)), snd ?fail)"
    using f by (metis prod.collapse)
  with quiz_creation_all_or_nothing [OF fresh disjI1, where form = ?topic and db' = "snd ?fail"
      and resp = Redirect_dashboard]
  have 2: "db_quizzes (snd ?fail) = db_quizzes example_db"
    "db_questions (snd ?fail) = db_questions example_db"
    by blast+
  from 1 2 show ?thesis by simp
qed

text \<open>
  C1, as stated, fails: two questions are asked for on a topic and the model answers
  with a list of one question that has a text only. The request succeeds; the quiz is
  stored as completed with \<^verbatim>\<open>number_of_questions = 2\<close> and a single question, whose four
  options are empty and whose correct answer is the default \<^verbatim>\<open>A\<close>.
\<close>

theorem quiz_creation_count_unchecked:
  \<open>create_quiz_from_topic some_key (answering (str ''[{"question": "Q"}]'')) 7 True
     \<lparr>form_name = Some (str ''Cells''), form_difficulty = Some (str ''Easy''),
      form_num_questions = 2\<rparr> empty_db =
   ((Redirect_take_quiz 1, Some (Success_message 1)),
    empty_db
      \<lparr>db_documents :=
         [\<lparr>pdf_id = 1, pdf_user = 7, pdf_title = str ''Topic: Cells'', pdf_file = None,
           pdf_text_content = Some (str ''Topic: Cells'')\<rparr>],
       db_quizzes :=
         [\<lparr>quiz_id = 1, quiz_user = 7, quiz_pdf = 1, quiz_subject = str ''Cells'',
           quiz_difficulty = str ''Easy'', number_of_questions = 2, is_completed = True\<rparr>],
       db_questions :=
         [\<lparr>question_id = 1, question_quiz = 1, question_text = PStr (str ''Q''),
           option_a = PStr [], option_b = PStr [], option_c = PStr [], option_d = PStr [],
           correct_answer = PStr (str ''A''), explanation = PStr [], question_order = 1\<rparr>],
       next_pdf_id := 2, next_quiz_id := 2, next_question_id := 2\<rparr>)\<close>
  by code_simp

text \<open>
  C9. The topic view creates a placeholder document and then the quiz; when the
  generation fails, here because no credential is configured, it deletes the quiz only.
  The quiz is gone and no question is stored, but the placeholder document of the
  request stays in the table of documents.
\<close>

theorem placeholder_document_survives_failure:
  \<open>create_quiz_from_topic no_key (answering (str ''[]'')) 7 True
     \<lparr>form_name = Some (str ''Cells''), form_difficulty = Some (str ''Easy''),
      form_num_questions = 5\<rparr> empty_db =
   ((Redirect_dashboard,
     Some (Error_message (str ''AI service not configured. Please contact administrator.''))),
    empty_db
      \<lparr>db_documents :=
         [\<lparr>pdf_id = 1, pdf_user = 7, pdf_title = str ''Topic: Cells'', pdf_file = None,
           pdf_text_content = Some (str ''Topic: Cells'')\<rparr>],
       next_pdf_id := 2, next_quiz_id := 2\<rparr>)\<close>
  by code_simp

end
